theory Spec2Isabelle
  imports Complex_Main "HOL-Library.AList"
begin

section \<open>Python values\<close>

text \<open>
  The notebooks compute with Python floats. A finite float is idealised as a real number
  (exact arithmetic: rounding, overflow and the infinities are outside this model); the
  not-a-number value is kept, because the regional analysis uses the NaN-ignoring
  reductions of numpy and because numpy's reductions of an empty array return it.
\<close>

datatype pyfloat = Fin real | NaN

fun fsub :: "pyfloat \<Rightarrow> pyfloat \<Rightarrow> pyfloat" where
  "fsub (Fin a) (Fin b) = Fin (a - b)"
| "fsub _ _ = NaN"

fun fmul :: "pyfloat \<Rightarrow> pyfloat \<Rightarrow> pyfloat" where
  "fmul (Fin a) (Fin b) = Fin (a * b)"
| "fmul _ _ = NaN"

text \<open>The entries of an array that are not NaN, in their order.\<close>

fun fin_vals :: "pyfloat list \<Rightarrow> real list" where
  "fin_vals [] = []"
| "fin_vals (Fin r # xs) = r # fin_vals xs"
| "fin_vals (NaN # xs) = fin_vals xs"

text \<open>
  Exceptions are values. Every exception of the notebooks is a subclass of Python's
  \<^verbatim>\<open>Exception\<close>; \<open>OtherError\<close> stands for the ones raised inside a library or by the
  file system (a missing file, malformed JSON).
\<close>

datatype error =
    ValueError
  | KeyError string
  | IndexError
  | NameError string
  | OtherError string

text \<open>Sequencing of two computations that can raise.\<close>

definition and_then :: "error + 'a \<Rightarrow> ('a \<Rightarrow> error + 'b) \<Rightarrow> error + 'b" where
  "and_then m f = (case m of Inl e \<Rightarrow> Inl e | Inr v \<Rightarrow> f v)"

text \<open>
  \<^verbatim>\<open>[g(x) for x in xs]\<close> where \<open>g\<close> can raise: the first exception ends the
  comprehension.
\<close>

fun map_raise :: "('a \<Rightarrow> error + 'b) \<Rightarrow> 'a list \<Rightarrow> error + 'b list" where
  "map_raise g [] = Inr []"
| "map_raise g (x # xs) =
     (case g x of
        Inl e \<Rightarrow> Inl e
      | Inr y \<Rightarrow> (case map_raise g xs of Inl e \<Rightarrow> Inl e | Inr ys \<Rightarrow> Inr (y # ys)))"

text \<open>
  A result dictionary holds floats and further dictionaries. Python dictionaries keep
  the order of insertion, and assigning to a key that is present replaces its value in
  place, which is what \<open>AList.update\<close> does on an association list.
\<close>

datatype pyval = PyFloat pyfloat | PyDict "(string \<times> pyval) list"

type_synonym pydict = "(string \<times> pyval) list"

section \<open>The numpy functions the notebooks call\<close>

text \<open>
  \<^verbatim>\<open>np.min\<close> and \<^verbatim>\<open>np.max\<close> raise \<^verbatim>\<open>ValueError\<close> on an empty array (a reduction
  with no identity) and propagate NaN.
\<close>

definition np_min :: "pyfloat list \<Rightarrow> error + pyfloat" where
  "np_min x =
     (if x = [] then Inl ValueError
      else if NaN \<in> set x then Inr NaN
      else Inr (Fin (Min (set (fin_vals x)))))"

definition np_max :: "pyfloat list \<Rightarrow> error + pyfloat" where
  "np_max x =
     (if x = [] then Inl ValueError
      else if NaN \<in> set x then Inr NaN
      else Inr (Fin (Max (set (fin_vals x)))))"

text \<open>
  \<^verbatim>\<open>np.mean\<close>, \<^verbatim>\<open>np.median\<close> and \<^verbatim>\<open>np.std\<close> return NaN (with a warning) on an
  empty array and propagate NaN. The standard deviation is the population one
  (\<^verbatim>\<open>ddof=0\<close>): the square root of the mean squared deviation from the mean.
\<close>

definition mean :: "real list \<Rightarrow> real" where
  "mean rs = sum_list rs / real (length rs)"

definition median :: "real list \<Rightarrow> real" where
  "median rs =
     (let s = sort rs; n = length s
      in if n mod 2 = 1 then s ! (n div 2)
         else (s ! (n div 2 - 1) + s ! (n div 2)) / 2)"

definition std :: "real list \<Rightarrow> real" where
  "std rs = sqrt (mean (map (\<lambda>r. (r - mean rs)\<^sup>2) rs))"

definition np_mean :: "pyfloat list \<Rightarrow> pyfloat" where
  "np_mean x = (if x = [] \<or> NaN \<in> set x then NaN else Fin (mean (fin_vals x)))"

definition np_median :: "pyfloat list \<Rightarrow> pyfloat" where
  "np_median x = (if x = [] \<or> NaN \<in> set x then NaN else Fin (median (fin_vals x)))"

definition np_std :: "pyfloat list \<Rightarrow> pyfloat" where
  "np_std x = (if x = [] \<or> NaN \<in> set x then NaN else Fin (std (fin_vals x)))"

text \<open>\<^verbatim>\<open>np.sum\<close> of a one-dimensional array: NaN propagates.\<close>

definition np_sum :: "pyfloat list \<Rightarrow> pyfloat" where
  "np_sum x = (if NaN \<in> set x then NaN else Fin (sum_list (fin_vals x)))"

text \<open>
  \<^verbatim>\<open>np.convolve(a, v, mode='valid')\<close>. numpy swaps the two arguments when \<open>v\<close> is the
  longer one, raises \<^verbatim>\<open>ValueError\<close> when either is empty, and returns the
  \<open>max(M, N) - min(M, N) + 1\<close> products of complete overlap: entry \<open>i\<close> is the sum over
  \<open>j\<close> of \<open>a[i + j] * v[N - 1 - j]\<close>, \<open>N\<close> the length of the shorter array.
\<close>

definition np_convolve_valid :: "pyfloat list \<Rightarrow> pyfloat list \<Rightarrow> error + pyfloat list" where
  "np_convolve_valid a0 v0 =
     (let a = (if length v0 > length a0 then v0 else a0);
          v = (if length v0 > length a0 then a0 else v0)
      in if a = [] then Inl ValueError
         else if v = [] then Inl ValueError
         else Inr (map (\<lambda>i. np_sum (map (\<lambda>j. fmul (a ! (i + j)) (v ! (length v - 1 - j)))
                                        [0..<length v]))
                       [0..<length a - length v + 1]))"

text \<open>\<^verbatim>\<open>np.ones(n) / c\<close>.\<close>

definition np_ones_div :: "nat \<Rightarrow> real \<Rightarrow> pyfloat list" where
  "np_ones_div n c = replicate n (Fin (1 / c))"

section \<open>The regional MCMC analysis\<close>

subsection \<open>What the notebook reads\<close>

text \<open>
  The statistics below come from libraries outside the repository whose algorithms are
  not reproduced here; they are parameters of the model, and each may raise:
  \<^verbatim>\<open>np.percentile(x, q)\<close>, pygem's \<^verbatim>\<open>mcmc.effective_n(x)\<close>, and the Gelman-Rubin
  statistic \<^verbatim>\<open>float(az.rhat(az.from_dict(posterior={k: chains})).to_array().values[0])\<close>
  of a chains-by-samples array.
\<close>

record lib =
  np_percentile :: "pyfloat list \<Rightarrow> real \<Rightarrow> error + pyfloat"
  effective_n :: "pyfloat list \<Rightarrow> error + pyfloat"
  rhat :: "pyfloat list list \<Rightarrow> error + pyfloat"

text \<open>
  The \<^verbatim>\<open>'MCMC'\<close> entry of a calibration file: a dictionary from a variable's name to a
  dictionary from a chain's name to the list of its samples.
\<close>

type_synonym prms = "string \<rightharpoonup> (string \<rightharpoonup> pyfloat list)"

text \<open>\<^verbatim>\<open>prms_dict[k][c]\<close>: a missing key raises \<^verbatim>\<open>KeyError\<close>.\<close>

definition chain_samples :: "prms \<Rightarrow> string \<Rightarrow> string \<Rightarrow> error + pyfloat list" where
  "chain_samples prms_dict k c =
     (case prms_dict k of
        None \<Rightarrow> Inl (KeyError k)
      | Some d \<Rightarrow> (case d c of None \<Rightarrow> Inl (KeyError c) | Some x \<Rightarrow> Inr x))"

text \<open>Python's \<^verbatim>\<open>str\<close> of a natural number, for the f-string \<^verbatim>\<open>f'chain_{n}'\<close>.\<close>

fun py_str :: "nat \<Rightarrow> string" where
  "py_str n =
     (if n < 10 then [''0123456789'' ! n]
      else py_str (n div 10) @ [''0123456789'' ! (n mod 10)])"

declare py_str.simps [simp del]

definition chain_key :: "nat \<Rightarrow> string" where
  "chain_key n = ''chain_'' @ py_str n"

definition chain_ns :: "nat list" where
  "chain_ns = [0, 1, 2]"

definition ks :: "string list" where
  "ks = [''kp'', ''tbias'', ''ddfsnow'', ''ddfice'', ''mb_mwea'']"

subsection \<open>The list of statistics and its keys\<close>

text \<open>
  The list \<^verbatim>\<open>stats\<close> of the notebook, in its order. In the sixth, Python evaluates the
  75th percentile before the 25th.
\<close>

definition stats :: "lib \<Rightarrow> (pyfloat list \<Rightarrow> error + pyfloat) list" where
  "stats l =
     [ \<lambda>x. np_min x,
       \<lambda>x. np_max x,
       \<lambda>x. Inr (np_median x),
       \<lambda>x. Inr (np_mean x),
       \<lambda>x. Inr (np_std x),
       \<lambda>x. and_then (np_percentile l x 75) (\<lambda>p75.
            and_then (np_percentile l x 25) (\<lambda>p25. Inr (fsub p75 p25))),
       effective_n l ]"

definition stats_ks :: "string list" where
  "stats_ks = [''min'', ''max'', ''median'', ''mean'', ''std'', ''iqr'', ''n_eff'']"

text \<open>
  \<^verbatim>\<open>for i, s in enumerate(keys): d[s] = stats[i](arg)\<close>. The right-hand side indexes
  \<^verbatim>\<open>stats\<close> first (\<^verbatim>\<open>IndexError\<close> out of range), then evaluates the argument (which is
  a dictionary lookup in the loop over the variables), then calls the statistic.
\<close>

fun stat_loop ::
  "(pyfloat list \<Rightarrow> error + pyfloat) list \<Rightarrow> error + pyfloat list \<Rightarrow> (nat \<times> string) list \<Rightarrow>
   pydict \<Rightarrow> error + pydict" where
  "stat_loop fs arg [] d = Inr d"
| "stat_loop fs arg ((i, s) # rest) d =
     (if i < length fs then
        (case arg of
           Inl e \<Rightarrow> Inl e
         | Inr x \<Rightarrow>
             (case (fs ! i) x of
                Inl e \<Rightarrow> Inl e
              | Inr v \<Rightarrow> stat_loop fs arg rest (AList.update s (PyFloat v) d)))
      else Inl IndexError)"

subsection \<open>The statistics of one glacier\<close>

text \<open>
  \<^verbatim>\<open>for n in chain_ns: glac_stats[k][f'chain_{n}'] = {}\<close> and the loop over the
  statistics that fills it.
\<close>

fun chain_loop :: "lib \<Rightarrow> prms \<Rightarrow> string \<Rightarrow> nat list \<Rightarrow> pydict \<Rightarrow> error + pydict" where
  "chain_loop l prms_dict k [] d = Inr d"
| "chain_loop l prms_dict k (n # ns) d =
     (case stat_loop (stats l) (chain_samples prms_dict k (chain_key n))
             (enumerate 0 stats_ks) [] of
        Inl e \<Rightarrow> Inl e
      | Inr c \<Rightarrow> chain_loop l prms_dict k ns (AList.update (chain_key n) (PyDict c) d))"

text \<open>
  \<^verbatim>\<open>np.array\<close> of a list of lists: rows of unequal length raise \<^verbatim>\<open>ValueError\<close> (an
  inhomogeneous shape).
\<close>

definition np_array_2d :: "pyfloat list list \<Rightarrow> error + pyfloat list list" where
  "np_array_2d rows =
     (if list_all (\<lambda>r. length r = length (hd rows)) rows then Inr rows else Inl ValueError)"

text \<open>
  The body of \<^verbatim>\<open>for k in ks\<close>: the per-chain statistics, then the three chains stacked
  into one array and their Gelman-Rubin statistic stored under \<^verbatim>\<open>'rhat'\<close>.
\<close>

definition var_stats :: "lib \<Rightarrow> prms \<Rightarrow> string \<Rightarrow> error + pydict" where
  "var_stats l prms_dict k =
     and_then (chain_loop l prms_dict k chain_ns []) (\<lambda>d.
     and_then (map_raise (\<lambda>n. chain_samples prms_dict k (chain_key n)) chain_ns) (\<lambda>rows.
     and_then (np_array_2d rows) (\<lambda>chains.
     and_then (rhat l chains) (\<lambda>r.
     Inr (AList.update ''rhat'' (PyFloat r) d)))))"

fun var_loop :: "lib \<Rightarrow> prms \<Rightarrow> string list \<Rightarrow> pydict \<Rightarrow> error + pydict" where
  "var_loop l prms_dict [] gs = Inr gs"
| "var_loop l prms_dict (k # rest) gs =
     (case var_stats l prms_dict k of
        Inl e \<Rightarrow> Inl e
      | Inr d \<Rightarrow> var_loop l prms_dict rest (AList.update k (PyDict d) gs))"

text \<open>
  The acceptance rate: the 100-sample rolling average of each chain, and the statistics
  whose keys are \<^verbatim>\<open>stats_ks[:-2]\<close>.
\<close>

definition rolling_ar :: "pyfloat list \<Rightarrow> error + pyfloat list" where
  "rolling_ar x = np_convolve_valid x (np_ones_div 100 100)"

fun ar_loop :: "lib \<Rightarrow> prms \<Rightarrow> nat list \<Rightarrow> pydict \<Rightarrow> error + pydict" where
  "ar_loop l prms_dict [] d = Inr d"
| "ar_loop l prms_dict (n # ns) d =
     (case and_then (chain_samples prms_dict ''ar'' (chain_key n)) rolling_ar of
        Inl e \<Rightarrow> Inl e
      | Inr r \<Rightarrow>
          (case stat_loop (stats l) (Inr r)
                  (enumerate 0 (take (length stats_ks - 2) stats_ks)) [] of
             Inl e \<Rightarrow> Inl e
           | Inr c \<Rightarrow> ar_loop l prms_dict ns (AList.update (chain_key n) (PyDict c) d)))"

definition glac_stats :: "lib \<Rightarrow> prms \<Rightarrow> error + pydict" where
  "glac_stats l prms_dict =
     and_then (var_loop l prms_dict ks []) (\<lambda>gs.
     and_then (ar_loop l prms_dict chain_ns []) (\<lambda>ar.
     Inr (AList.update ''ar'' (PyDict ar) gs)))"

subsection \<open>The loop over the calibration files\<close>

text \<open>
  \<^verbatim>\<open>s.split(c)\<close> for a one-character separator: the pieces between the separators,
  never an empty list.
\<close>

fun split_on :: "char \<Rightarrow> string \<Rightarrow> string list" where
  "split_on c [] = [[]]"
| "split_on c (x # xs) =
     (if x = c then [] # split_on c xs
      else (case split_on c xs of [] \<Rightarrow> [[x]] | w # ws \<Rightarrow> (x # w) # ws))"

text \<open>
  \<^verbatim>\<open>reg, glacno = f.split('/')[-1].split('.')[:2]\<close> followed by
  \<^verbatim>\<open>glacno = reg + '.' + glacno[:5]\<close>. The unpacking raises \<^verbatim>\<open>ValueError\<close> unless the
  slice has two elements.
\<close>

definition glac_key :: "string \<Rightarrow> error + string" where
  "glac_key f =
     (case take 2 (split_on CHR ''.'' (last (split_on CHR ''/'' f))) of
        [reg, glacno] \<Rightarrow> Inr (reg @ ''.'' @ take 5 glacno)
      | _ \<Rightarrow> Inl ValueError)"

text \<open>
  The rest of the \<^verbatim>\<open>try\<close> block. \<open>fs\<close> is the file system and the JSON parser:
  \<open>fs f\<close> is what \<^verbatim>\<open>json.load\<close> returns for the file \<open>f\<close>, or the exception that
  opening or parsing it raises. \<open>rgi_glacs\<close> is the glacier table, one pair of
  \<^verbatim>\<open>glacno\<close> and \<^verbatim>\<open>Area\<close> per row; \<^verbatim>\<open>.iloc[0]\<close> of an empty selection raises
  \<^verbatim>\<open>IndexError\<close>.
\<close>

definition file_body ::
  "lib \<Rightarrow> (string \<Rightarrow> error + (string \<rightharpoonup> prms)) \<Rightarrow> (string \<times> pyfloat) list \<Rightarrow> string \<Rightarrow> string \<Rightarrow>
   error + pydict" where
  "file_body l fs rgi_glacs f glacno =
     and_then (fs f) (\<lambda>js.
     and_then (case js ''MCMC'' of None \<Rightarrow> Inl (KeyError ''MCMC'') | Some p \<Rightarrow> Inr p)
       (\<lambda>prms_dict.
     and_then (glac_stats l prms_dict) (\<lambda>gs.
     and_then (case filter (\<lambda>row. fst row = glacno) rgi_glacs of
                 [] \<Rightarrow> Inl IndexError
               | row # _ \<Rightarrow> Inr (snd row)) (\<lambda>area.
     Inr (AList.update ''area'' (PyFloat area) gs)))))"

text \<open>
  The state of the loop: the dictionary \<^verbatim>\<open>mcmc_stats\<close>, the binding of the variable
  \<^verbatim>\<open>glacno\<close> (none before the first assignment), and what has been printed.
\<close>

record loop_state =
  mcmc_stats :: pydict
  glacno_var :: "string option"
  printed :: "(string \<times> error) list"

text \<open>
  \<^verbatim>\<open>except Exception as err: print(glacno, err)\<close>. Reading \<^verbatim>\<open>glacno\<close> before any
  assignment raises \<^verbatim>\<open>NameError\<close> inside the handler, which leaves the loop.
\<close>

definition on_error :: "loop_state \<Rightarrow> error \<Rightarrow> error + loop_state" where
  "on_error st err =
     (case glacno_var st of
        None \<Rightarrow> Inl (NameError ''glacno'')
      | Some g \<Rightarrow> Inr (st\<lparr>printed := printed st @ [(g, err)]\<rparr>))"

definition file_step ::
  "lib \<Rightarrow> (string \<Rightarrow> error + (string \<rightharpoonup> prms)) \<Rightarrow> (string \<times> pyfloat) list \<Rightarrow> loop_state \<Rightarrow>
   string \<Rightarrow> error + loop_state" where
  "file_step l fs rgi_glacs st f =
     (case glac_key f of
        Inl err \<Rightarrow> on_error st err
      | Inr g \<Rightarrow>
          (let st1 = st\<lparr>glacno_var := Some g\<rparr>
           in case file_body l fs rgi_glacs f g of
                Inl err \<Rightarrow> on_error st1 err
              | Inr gs \<Rightarrow> Inr (st1\<lparr>mcmc_stats := AList.update g (PyDict gs) (mcmc_stats st1)\<rparr>)))"

fun file_loop ::
  "lib \<Rightarrow> (string \<Rightarrow> error + (string \<rightharpoonup> prms)) \<Rightarrow> (string \<times> pyfloat) list \<Rightarrow> loop_state \<Rightarrow>
   string list \<Rightarrow> error + loop_state" where
  "file_loop l fs rgi_glacs st [] = Inr st"
| "file_loop l fs rgi_glacs st (f # rest) =
     (case file_step l fs rgi_glacs st f of
        Inl e \<Rightarrow> Inl e
      | Inr st' \<Rightarrow> file_loop l fs rgi_glacs st' rest)"

definition init_state :: loop_state where
  "init_state = \<lparr>mcmc_stats = [], glacno_var = None, printed = []\<rparr>"

text \<open>
  The files of the loop are \<^verbatim>\<open>sorted(glob.glob(datpath + '/*-modelprms_dict.json'))\<close>:
  the last component of each path ends with \<^verbatim>\<open>-modelprms_dict.json\<close>.
\<close>

definition ends_with :: "string \<Rightarrow> string \<Rightarrow> bool" where
  "ends_with suf s = (length suf \<le> length s \<and> drop (length s - length suf) s = suf)"

definition in_glob :: "string \<Rightarrow> bool" where
  "in_glob f = ends_with ''-modelprms_dict.json'' (last (split_on CHR ''/'' f))"

section \<open>The single-glacier MCMC analysis\<close>

text \<open>
  The notebook \<^verbatim>\<open>analyze_mcmc.ipynb\<close> reads the \<^verbatim>\<open>'MCMC'\<close> entry of one calibration file.
  It has no loop over chains or statistics: for each of four variables it draws the
  prior density and the kernel density of the posterior chain \<^verbatim>\<open>chain_0\<close>, the latter
  over \<^verbatim>\<open>np.linspace(min(data), max(data), 1000)\<close>. The model returns these ranges.
  Its parameters, each of which may raise: \<open>prior_curve k\<close> is the prior of the
  variable \<open>k\<close> (read from entries of the file that the regional analysis does not read,
  and evaluated by scipy), and \<open>gaussian_kde\<close> is scipy's kernel density estimate.
\<close>

record plot_lib =
  prior_curve :: "string \<Rightarrow> error + unit"
  gaussian_kde :: "pyfloat list \<Rightarrow> error + unit"

text \<open>
  Python's comparison of floats is false when either side is NaN. The built-in
  \<^verbatim>\<open>min\<close> and \<^verbatim>\<open>max\<close> raise \<^verbatim>\<open>ValueError\<close> on an empty sequence and otherwise keep
  the first item unless a later one is smaller (larger).
\<close>

fun flt :: "pyfloat \<Rightarrow> pyfloat \<Rightarrow> bool" where
  "flt (Fin a) (Fin b) = (a < b)"
| "flt _ _ = False"

definition py_min :: "pyfloat list \<Rightarrow> error + pyfloat" where
  "py_min data =
     (case data of
        [] \<Rightarrow> Inl ValueError
      | x # xs \<Rightarrow> Inr (fold (\<lambda>item min_item. if flt item min_item then item else min_item) xs x))"

definition py_max :: "pyfloat list \<Rightarrow> error + pyfloat" where
  "py_max data =
     (case data of
        [] \<Rightarrow> Inl ValueError
      | x # xs \<Rightarrow> Inr (fold (\<lambda>item max_item. if flt max_item item then item else max_item) xs x))"

text \<open>
  The posterior of one variable: \<^verbatim>\<open>data = prms['MCMC'][k]['chain_0']\<close> (for
  \<^verbatim>\<open>ddfsnow\<close>, \<^verbatim>\<open>np.asarray(...) * 1e3\<close>), the kernel density, then the range.
\<close>

definition posterior :: "plot_lib \<Rightarrow> prms \<Rightarrow> string \<Rightarrow> bool \<Rightarrow> error + (pyfloat \<times> pyfloat)" where
  "posterior pl prms_dict k scaled =
     and_then (chain_samples prms_dict k ''chain_0'') (\<lambda>chain.
     let data = (if scaled then map (\<lambda>v. fmul v (Fin 1000)) chain else chain)
     in and_then (gaussian_kde pl data) (\<lambda>kde.
        and_then (py_min data) (\<lambda>lo.
        and_then (py_max data) (\<lambda>hi. Inr (lo, hi)))))"

text \<open>The plotting cell: prior and posterior of each variable, in the notebook's order.\<close>

definition analyze_mcmc ::
  "plot_lib \<Rightarrow> prms \<Rightarrow> error + (string \<times> (pyfloat \<times> pyfloat)) list" where
  "analyze_mcmc pl prms_dict =
     and_then (prior_curve pl ''mb_mwea'') (\<lambda>p1.
     and_then (posterior pl prms_dict ''mb_mwea'' False) (\<lambda>r1.
     and_then (prior_curve pl ''kp'') (\<lambda>p2.
     and_then (posterior pl prms_dict ''kp'' False) (\<lambda>r2.
     and_then (prior_curve pl ''tbias'') (\<lambda>p3.
     and_then (posterior pl prms_dict ''tbias'' False) (\<lambda>r3.
     and_then (prior_curve pl ''ddfsnow'') (\<lambda>p4.
     and_then (posterior pl prms_dict ''ddfsnow'' True) (\<lambda>r4.
     Inr [(''mb_mwea'', r1), (''kp'', r2), (''tbias'', r3), (''ddfsnow'', r4)]))))))))"

section \<open>The glacier change analysis (multi-GCM ensemble)\<close>

subsection \<open>numpy on stacked series\<close>

text \<open>
  \<^verbatim>\<open>np.vstack\<close> of a list of lists raises \<^verbatim>\<open>ValueError\<close> when the list is empty and
  when the rows differ in length; otherwise it is the two-dimensional array whose rows
  are the lists.
\<close>

definition np_vstack :: "pyfloat list list \<Rightarrow> error + pyfloat list list" where
  "np_vstack rows =
     (if rows = [] then Inl ValueError
      else if list_all (\<lambda>r. length r = length (hd rows)) rows then Inr rows
      else Inl ValueError)"

text \<open>
  A reduction with \<^verbatim>\<open>axis=0\<close> reduces each column of a (non-empty, rectangular) array:
  entry \<open>j\<close> of the result is the reduction of the \<open>j\<close>-th entries of all rows.
\<close>

definition column :: "pyfloat list list \<Rightarrow> nat \<Rightarrow> pyfloat list" where
  "column a j = map (\<lambda>row. row ! j) a"

definition axis0 :: "(pyfloat list \<Rightarrow> pyfloat) \<Rightarrow> pyfloat list list \<Rightarrow> pyfloat list" where
  "axis0 red a = map (\<lambda>j. red (column a j)) [0..<length (hd a)]"

text \<open>
  The NaN-ignoring reductions of one column: the statistic of the entries that are not
  NaN, and NaN (with a warning) when every entry is NaN.
\<close>

definition nanmean1 :: "pyfloat list \<Rightarrow> pyfloat" where
  "nanmean1 x = (if fin_vals x = [] then NaN else Fin (mean (fin_vals x)))"

definition nanstd1 :: "pyfloat list \<Rightarrow> pyfloat" where
  "nanstd1 x = (if fin_vals x = [] then NaN else Fin (std (fin_vals x)))"

definition nanmin1 :: "pyfloat list \<Rightarrow> pyfloat" where
  "nanmin1 x = (if fin_vals x = [] then NaN else Fin (Min (set (fin_vals x))))"

definition nanmax1 :: "pyfloat list \<Rightarrow> pyfloat" where
  "nanmax1 x = (if fin_vals x = [] then NaN else Fin (Max (set (fin_vals x))))"

definition np_nanmean :: "pyfloat list list \<Rightarrow> pyfloat list" where
  "np_nanmean a = axis0 nanmean1 a"

definition np_nanstd :: "pyfloat list list \<Rightarrow> pyfloat list" where
  "np_nanstd a = axis0 nanstd1 a"

definition np_nanmin :: "pyfloat list list \<Rightarrow> pyfloat list" where
  "np_nanmin a = axis0 nanmin1 a"

definition np_nanmax :: "pyfloat list list \<Rightarrow> pyfloat list" where
  "np_nanmax a = axis0 nanmax1 a"

subsection \<open>The aggregation of one scenario\<close>

text \<open>
  What the notebook reads of one GCM output file, for the first glacier of the file: the
  monthly runoff (an xarray array with its time coordinate, kept abstract), the annual
  area, the annual mass, and the coordinate \<^verbatim>\<open>year\<close>.
\<close>

record 'm gcm_output =
  glac_runoff_monthly :: 'm
  glac_area_annual :: "pyfloat list"
  glac_mass_annual :: "pyfloat list"
  year_coord :: "int list"

text \<open>
  The body of \<^verbatim>\<open>for scenario in scenarios\<close>. Its parameters: \<open>resample_sum\<close> is xarray's
  \<^verbatim>\<open>ds.resample(time='YE').sum('time').values.tolist()\<close>, \<open>open_dataset\<close> is
  \<^verbatim>\<open>xr.open_dataset\<close> (each may raise), \<open>fns\<close> is \<^verbatim>\<open>sorted(fns)\<close>, and \<open>year\<close> is the
  binding of the variable \<^verbatim>\<open>year\<close> before the body. The annual area and mass drop
  their first entry (\<^verbatim>\<open>ds.values[1:]\<close>), and every file of the third loop assigns
  \<^verbatim>\<open>year = ds.year.values[:-1].tolist()\<close>. No exception is caught in this cell.
\<close>

definition scenario_stats ::
  "('m \<Rightarrow> error + pyfloat list) \<Rightarrow> (string \<Rightarrow> error + 'm gcm_output) \<Rightarrow> string list \<Rightarrow>
   int list option \<Rightarrow> error + ((string \<times> pyfloat list) list \<times> int list option)" where
  "scenario_stats resample_sum open_dataset fns year =
     and_then (map_raise (\<lambda>f. and_then (open_dataset f)
                                  (\<lambda>ds. resample_sum (glac_runoff_monthly ds))) fns)
       (\<lambda>annual_runoff.
     and_then (np_vstack annual_runoff) (\<lambda>stacked_runoff.
     let r1 = AList.update ''mean_runoff'' (np_nanmean stacked_runoff) [];
         r2 = AList.update ''std_runoff'' (np_nanstd stacked_runoff) r1;
         r3 = AList.update ''min_runoff'' (np_nanmin stacked_runoff) r2;
         r4 = AList.update ''max_runoff'' (np_nanmax stacked_runoff) r3
     in
     and_then (map_raise (\<lambda>f. and_then (open_dataset f)
                                  (\<lambda>ds. Inr (drop 1 (glac_area_annual ds)))) fns)
       (\<lambda>annual_area.
     and_then (np_vstack annual_area) (\<lambda>stacked_area.
     let r5 = AList.update ''mean_area'' (np_nanmean stacked_area) r4;
         r6 = AList.update ''std_area'' (np_nanstd stacked_area) r5;
         r7 = AList.update ''min_area'' (np_nanmin stacked_area) r6;
         r8 = AList.update ''max_area'' (np_nanmax stacked_area) r7
     in
     and_then (map_raise (\<lambda>f. and_then (open_dataset f)
                                  (\<lambda>ds. Inr (drop 1 (glac_mass_annual ds), butlast (year_coord ds))))
                 fns)
       (\<lambda>mass_and_year.
     let annual_mass = map fst mass_and_year;
         year' = (if mass_and_year = [] then year else Some (snd (last mass_and_year)))
     in
     and_then (np_vstack annual_mass) (\<lambda>stacked_mass.
     let r9 = AList.update ''std_mass'' (np_nanstd stacked_mass) r8;
         r10 = AList.update ''mean_mass'' (np_nanmean stacked_mass) r9;
         r11 = AList.update ''min_mass'' (np_nanmin stacked_mass) r10;
         r12 = AList.update ''max_mass'' (np_nanmax stacked_mass) r11
     in Inr (r12, year')))))))"

text \<open>
  The loop over the scenarios: \<open>glob\<close> gives the sorted output files of a scenario, and
  the state is the dictionary \<^verbatim>\<open>results\<close> with the binding of \<^verbatim>\<open>year\<close>.
\<close>

fun scenario_loop ::
  "('m \<Rightarrow> error + pyfloat list) \<Rightarrow> (string \<Rightarrow> error + 'm gcm_output) \<Rightarrow> (string \<Rightarrow> string list) \<Rightarrow>
   string list \<Rightarrow> (string \<times> (string \<times> pyfloat list) list) list \<times> int list option \<Rightarrow>
   error + ((string \<times> (string \<times> pyfloat list) list) list \<times> int list option)" where
  "scenario_loop resample_sum open_dataset glob [] st = Inr st"
| "scenario_loop resample_sum open_dataset glob (scenario # rest) st =
     (case scenario_stats resample_sum open_dataset (glob scenario) (snd st) of
        Inl e \<Rightarrow> Inl e
      | Inr (d, year') \<Rightarrow>
          scenario_loop resample_sum open_dataset glob rest
            (AList.update scenario d (fst st), year'))"

subsection \<open>The resampling of the monthly runoff\<close>

text \<open>
  The monthly runoff of a file is an xarray array with a time coordinate: here the list
  of its entries in the order of the coordinate, each a time (year and month) with its
  value. The values are finite (how the library treats NaN entries is not modelled).
  \<open>year_values y da\<close> are the values of the calendar year \<open>y\<close>.
\<close>

definition first_year :: "((int \<times> nat) \<times> real) list \<Rightarrow> int" where
  "first_year da = fst (fst (hd da))"

definition last_year :: "((int \<times> nat) \<times> real) list \<Rightarrow> int" where
  "last_year da = fst (fst (last da))"

definition year_values :: "int \<Rightarrow> ((int \<times> nat) \<times> real) list \<Rightarrow> real list" where
  "year_values y da = map snd (filter (\<lambda>e. fst (fst e) = y) da)"

text \<open>The order of two times of the coordinate.\<close>

definition time_le :: "int \<times> nat \<Rightarrow> int \<times> nat \<Rightarrow> bool" where
  "time_le s t \<longleftrightarrow> fst s < fst t \<or> (fst s = fst t \<and> snd s \<le> snd t)"

text \<open>
  \<^verbatim>\<open>ds.resample(time='YE').sum('time').values.tolist()\<close> is a call into xarray,
  modelled here as the library behaves. The resampling refuses with \<^verbatim>\<open>ValueError\<close> a time
  coordinate that is empty or that does not increase. Otherwise the bins are the
  calendar years from that of the first entry to that of the last, each closed at the
  end of its year: going through the series in its order, a bin takes the entries up to
  the end of its year and leaves the rest to the later bins. The value of a bin is the
  sum of its entries, and NaN for a bin that no entry falls in.
\<close>

fun year_bins :: "int \<Rightarrow> nat \<Rightarrow> ((int \<times> nat) \<times> real) list \<Rightarrow> pyfloat list" where
  "year_bins y 0 da = []"
| "year_bins y (Suc n) da =
     (let bin = takeWhile (\<lambda>e. fst (fst e) \<le> y) da
      in (if bin = [] then NaN else Fin (sum_list (map snd bin)))
         # year_bins (y + 1) n (dropWhile (\<lambda>e. fst (fst e) \<le> y) da))"

definition xr_resample_YE_sum :: "((int \<times> nat) \<times> real) list \<Rightarrow> error + pyfloat list" where
  "xr_resample_YE_sum da =
     (if da = [] then Inl ValueError
      else if \<not> sorted_wrt time_le (map fst da) then Inl ValueError
      else Inr (year_bins (first_year da) (nat (last_year da - first_year da + 1)) da))"

text \<open>
  A time coordinate is monthly when every time is the month after the one before it.
\<close>

definition next_month :: "int \<times> nat \<Rightarrow> int \<times> nat" where
  "next_month t = (if snd t = 12 then (fst t + 1, 1) else (fst t, snd t + 1))"

fun monthly :: "(int \<times> nat) list \<Rightarrow> bool" where
  "monthly [] = True"
| "monthly [t] = True"
| "monthly (s # t # ts) = (t = next_month s \<and> monthly (t # ts))"

subsection \<open>The 20-year period averages\<close>

definition periods :: "(int \<times> int) list" where
  "periods = [(2001, 2020), (2021, 2040), (2041, 2060), (2061, 2080), (2081, 2100)]"

text \<open>\<^verbatim>\<open>xs.index(v)\<close>: the first position of \<open>v\<close>, \<^verbatim>\<open>ValueError\<close> when there is none.\<close>

fun py_index :: "'a list \<Rightarrow> 'a \<Rightarrow> error + nat" where
  "py_index [] v = Inl ValueError"
| "py_index (x # xs) v =
     (if x = v then Inr 0
      else (case py_index xs v of Inl e \<Rightarrow> Inl e | Inr i \<Rightarrow> Inr (Suc i)))"

text \<open>\<^verbatim>\<open>xs[a:b]\<close> for indices that are not negative: out-of-range bounds are clipped.\<close>

definition py_slice :: "'a list \<Rightarrow> nat \<Rightarrow> nat \<Rightarrow> 'a list" where
  "py_slice xs a b = drop a (take b xs)"

text \<open>
  The body of \<^verbatim>\<open>for period in periods\<close>: the two indices, then the mean and the
  standard deviation of the slice of \<^verbatim>\<open>results[scenario]['mean_runoff']\<close>. The notebook
  prints both scaled by \<open>1e-9\<close> and rounded to three decimals; the model returns the
  values \<^verbatim>\<open>runoff_avg\<close> and \<^verbatim>\<open>runoff_sig\<close> themselves.
\<close>

definition period_stats ::
  "(string \<times> (string \<times> pyfloat list) list) list \<Rightarrow> int list \<Rightarrow> string \<Rightarrow> int \<times> int \<Rightarrow>
   error + (pyfloat \<times> pyfloat)" where
  "period_stats results year scenario period =
     and_then (map_raise (py_index year) [fst period, snd period]) (\<lambda>inds.
     and_then (case map_of results scenario of
                 None \<Rightarrow> Inl (KeyError scenario)
               | Some d \<Rightarrow> (case map_of d ''mean_runoff'' of
                             None \<Rightarrow> Inl (KeyError ''mean_runoff'')
                           | Some m \<Rightarrow> Inr m)) (\<lambda>mean_runoff.
     let runoff_avg = np_mean (py_slice mean_runoff (inds ! 0) (inds ! 1 + 1));
         runoff_sig = np_std (py_slice mean_runoff (inds ! 0) (inds ! 1 + 1))
     in Inr (runoff_avg, runoff_sig)))"

text \<open>\<^verbatim>\<open>for scenario in scenarios: for period in periods\<close>, with what is reported.\<close>

definition report ::
  "(string \<times> (string \<times> pyfloat list) list) list \<Rightarrow> int list \<Rightarrow> string list \<Rightarrow>
   error + (string \<times> ((int \<times> int) \<times> pyfloat \<times> pyfloat) list) list" where
  "report results year scenarios =
     map_raise (\<lambda>scenario.
        and_then (map_raise (\<lambda>period.
                    and_then (period_stats results year scenario period)
                      (\<lambda>r. Inr (period, r))) periods)
          (\<lambda>lines. Inr (scenario, lines))) scenarios"

section \<open>Example inputs\<close>

text \<open>
  Concrete inputs on which the theorems below are instantiated. \<open>example_lib\<close> stands in
  for the three library statistics with functions that always return a number.
\<close>

definition example_lib :: lib where
  "example_lib =
     \<lparr>np_percentile = (\<lambda>x q. Inr (Fin q)),
      effective_n = (\<lambda>x. Inr (Fin (real (length x)))),
      rhat = (\<lambda>a. Inr (Fin 1))\<rparr>"

definition example_prms :: prms where
  "example_prms k =
     (if k = ''ar'' then
        Some (\<lambda>c. if c \<in> set (map chain_key chain_ns) then Some (replicate 100 (Fin (1 / 2)))
                   else None)
      else if k \<in> set ks then
        Some (\<lambda>c. if c \<in> set (map chain_key chain_ns) then Some [Fin 1, Fin 3] else None)
      else None)"

text \<open>A calibration whose acceptance-rate chains hold a single sample each.\<close>

definition short_prms :: prms where
  "short_prms k =
     (if k = ''ar'' then
        Some (\<lambda>c. if c \<in> set (map chain_key chain_ns) then Some [Fin 1] else None)
      else if k \<in> set ks then
        Some (\<lambda>c. if c \<in> set (map chain_key chain_ns) then Some [Fin 1, Fin 3] else None)
      else None)"

definition example_fs :: "string \<Rightarrow> error + (string \<rightharpoonup> prms)" where
  "example_fs f =
     (if f = ''out/1.00001-modelprms_dict.json'' then Inr [''MCMC'' \<mapsto> example_prms]
      else if f = ''out/1.000019-modelprms_dict.json'' then Inr [''MCMC'' \<mapsto> short_prms]
      else Inl (OtherError ''FileNotFoundError''))"

text \<open>
  Three files in sorted order: the second has the key of the first, and the third cannot
  be opened.
\<close>

definition example_files :: "string list" where
  "example_files =
     [''out/1.00001-modelprms_dict.json'', ''out/1.000019-modelprms_dict.json'',
      ''out/1.00002-modelprms_dict.json'']"

definition example_rgi :: "(string \<times> pyfloat) list" where
  "example_rgi = [(''1.00001'', Fin 2)]"

text \<open>
  A calibration with a single chain per variable, and stand-ins for the prior curves and
  the kernel density that always return.
\<close>

definition single_prms :: prms where
  "single_prms k =
     (if k \<in> set ks then Some (\<lambda>c. if c = ''chain_0'' then Some [Fin 1, Fin 3] else None)
      else None)"

definition example_plot :: plot_lib where
  "example_plot = \<lparr>prior_curve = (\<lambda>k. Inr ()), gaussian_kde = (\<lambda>data. Inr ())\<rparr>"

text \<open>
  Two GCM output files. The stand-in for the resampling returns the runoff array as it
  is, so the arrays below are read as annual totals.
\<close>

definition example_resample :: "pyfloat list \<Rightarrow> error + pyfloat list" where
  "example_resample m = Inr m"

definition example_open :: "string \<Rightarrow> error + (pyfloat list) gcm_output" where
  "example_open f =
     (if f = ''gcm_a'' then
        Inr \<lparr>glac_runoff_monthly = [Fin 1, Fin 2],
             glac_area_annual = [Fin 9, Fin 4, Fin 2],
             glac_mass_annual = [Fin 8, Fin 6, NaN],
             year_coord = [2000, 2001, 2002]\<rparr>
      else if f = ''gcm_b'' then
        Inr \<lparr>glac_runoff_monthly = [Fin 3, NaN],
             glac_area_annual = [Fin 9, Fin 6, Fin 4],
             glac_mass_annual = [Fin 8, Fin 2, NaN],
             year_coord = [2000, 2001, 2002]\<rparr>
      else Inl (OtherError ''FileNotFoundError''))"

text \<open>
  Two GCM output files with three months of runoff each, in the calendar years 2000 and
  2001.
\<close>

definition example_open_monthly :: "string \<Rightarrow> error + (((int \<times> nat) \<times> real) list) gcm_output" where
  "example_open_monthly f =
     (if f = ''gcm_a'' then
        Inr \<lparr>glac_runoff_monthly = [((2000, 11), 1), ((2000, 12), 2), ((2001, 1), 4)],
             glac_area_annual = [Fin 9, Fin 4, Fin 2],
             glac_mass_annual = [Fin 8, Fin 6, Fin 5],
             year_coord = [2000, 2001, 2002]\<rparr>
      else if f = ''gcm_b'' then
        Inr \<lparr>glac_runoff_monthly = [((2000, 12), 5), ((2001, 1), 6), ((2001, 2), 1)],
             glac_area_annual = [Fin 9, Fin 6, Fin 4],
             glac_mass_annual = [Fin 8, Fin 2, Fin 1],
             year_coord = [2000, 2001, 2002]\<rparr>
      else Inl (OtherError ''FileNotFoundError''))"

text \<open>The model years 2000 to 2100 with a constant mean runoff, for one scenario.\<close>

definition example_year :: "int list" where
  "example_year = map (\<lambda>i. 2000 + int i) [0..<101]"

definition example_results :: "(string \<times> (string \<times> pyfloat list) list) list" where
  "example_results = [(''ssp245'', [(''mean_runoff'', replicate 101 (Fin 5))])]"

text \<open>
  The model years 2000 to 2020 with a mean runoff of three entries: a year list that is
  longer than the runoff list of the scenario.
\<close>

definition clipped_year :: "int list" where
  "clipped_year = map (\<lambda>i. 2000 + int i) [0..<21]"

definition clipped_results :: "(string \<times> (string \<times> pyfloat list) list) list" where
  "clipped_results = [(''ssp245'', [(''mean_runoff'', [Fin 7, Fin 1, Fin 3])])]"

section \<open>Properties\<close>

subsection \<open>Sequencing and the closed forms of the loops\<close>

lemma and_then_simps [simp]:
  "and_then (Inl e) f = Inl e"
  "and_then (Inr v) f = f v"
  by (simp_all add: and_then_def)

lemma and_then_Inr_iff: "and_then m f = Inr y \<longleftrightarrow> (\<exists>v. m = Inr v \<and> f v = Inr y)"
  by (cases m) simp_all

lemma chain_key_simps:
  "chain_key 0 = ''chain_0''" "chain_key 1 = ''chain_1''" "chain_key 2 = ''chain_2''"
  "chain_key (Suc 0) = ''chain_1''"
  by (simp_all add: chain_key_def py_str.simps)

lemma enumerate_stats_ks:
  "enumerate 0 stats_ks = [(0, ''min''), (1, ''max''), (2, ''median''), (3, ''mean''), (4, ''std''), (5, ''iqr''), (6, ''n_eff'')]"
  by (simp add: stats_ks_def)

lemma enumerate_stats_ks_ar:
  "enumerate 0 (take (length stats_ks - 2) stats_ks) = [(0, ''min''), (1, ''max''), (2, ''median''), (3, ''mean''), (4, ''std'')]"
  by (simp add: stats_ks_def)

lemma stat_loop_all:
  "stat_loop (stats l) arg (enumerate 0 stats_ks) [] = Inr c \<longleftrightarrow>
     (\<exists>x mn mx p75 p25 ne. arg = Inr x \<and> np_min x = Inr mn \<and> np_max x = Inr mx \<and>
        np_percentile l x 75 = Inr p75 \<and> np_percentile l x 25 = Inr p25 \<and>
        effective_n l x = Inr ne \<and>
        c = [(''min'', PyFloat mn), (''max'', PyFloat mx), (''median'', PyFloat (np_median x)),
          (''mean'', PyFloat (np_mean x)), (''std'', PyFloat (np_std x)),
          (''iqr'', PyFloat (fsub p75 p25)), (''n_eff'', PyFloat ne)])"
  by (auto simp add: enumerate_stats_ks stats_def and_then_def split: sum.splits)

lemma stat_loop_ar:
  "stat_loop (stats l) arg (enumerate 0 (take (length stats_ks - 2) stats_ks)) [] = Inr c \<longleftrightarrow>
     (\<exists>x mn mx. arg = Inr x \<and> np_min x = Inr mn \<and> np_max x = Inr mx \<and>
        c = [(''min'', PyFloat mn), (''max'', PyFloat mx), (''median'', PyFloat (np_median x)),
          (''mean'', PyFloat (np_mean x)), (''std'', PyFloat (np_std x))])"
  by (auto simp add: enumerate_stats_ks_ar stats_def and_then_def split: sum.splits)

lemma chain_loop_all:
  "chain_loop l p k chain_ns [] = Inr d \<longleftrightarrow>
     (\<exists>c0 c1 c2.
        stat_loop (stats l) (chain_samples p k ''chain_0'') (enumerate 0 stats_ks) [] = Inr c0 \<and>
        stat_loop (stats l) (chain_samples p k ''chain_1'') (enumerate 0 stats_ks) [] = Inr c1 \<and>
        stat_loop (stats l) (chain_samples p k ''chain_2'') (enumerate 0 stats_ks) [] = Inr c2 \<and>
        d = [(''chain_0'', PyDict c0), (''chain_1'', PyDict c1), (''chain_2'', PyDict c2)])"
  by (auto simp add: chain_ns_def chain_key_simps split: sum.splits)

lemma map_raise_chains:
  "map_raise (\<lambda>n. chain_samples p k (chain_key n)) chain_ns = Inr rows \<longleftrightarrow>
     (\<exists>x0 x1 x2. chain_samples p k ''chain_0'' = Inr x0 \<and> chain_samples p k ''chain_1'' = Inr x1 \<and>
        chain_samples p k ''chain_2'' = Inr x2 \<and> rows = [x0, x1, x2])"
  by (auto simp add: chain_ns_def chain_key_simps split: sum.splits)

lemma np_array_2d_three:
  "np_array_2d [x0, x1, x2] = Inr rows \<longleftrightarrow>
     length x1 = length x0 \<and> length x2 = length x0 \<and> rows = [x0, x1, x2]"
  by (auto simp add: np_array_2d_def)

lemma var_stats_Inr:
  "var_stats l p k = Inr d \<longleftrightarrow>
     (\<exists>x0 x1 x2 c0 c1 c2 r.
        chain_samples p k ''chain_0'' = Inr x0 \<and> chain_samples p k ''chain_1'' = Inr x1 \<and>
        chain_samples p k ''chain_2'' = Inr x2 \<and>
        stat_loop (stats l) (Inr x0) (enumerate 0 stats_ks) [] = Inr c0 \<and>
        stat_loop (stats l) (Inr x1) (enumerate 0 stats_ks) [] = Inr c1 \<and>
        stat_loop (stats l) (Inr x2) (enumerate 0 stats_ks) [] = Inr c2 \<and>
        length x1 = length x0 \<and> length x2 = length x0 \<and>
        rhat l [x0, x1, x2] = Inr r \<and>
        d = [(''chain_0'', PyDict c0), (''chain_1'', PyDict c1), (''chain_2'', PyDict c2),
             (''rhat'', PyFloat r)])"
  unfolding var_stats_def and_then_Inr_iff chain_loop_all map_raise_chains
  by (auto simp add: np_array_2d_three stat_loop_all)

lemma var_loop_all:
  "var_loop l p ks [] = Inr gs \<longleftrightarrow>
     (\<exists>d1 d2 d3 d4 d5.
        var_stats l p ''kp'' = Inr d1 \<and> var_stats l p ''tbias'' = Inr d2 \<and>
        var_stats l p ''ddfsnow'' = Inr d3 \<and> var_stats l p ''ddfice'' = Inr d4 \<and>
        var_stats l p ''mb_mwea'' = Inr d5 \<and>
        gs = [(''kp'', PyDict d1), (''tbias'', PyDict d2), (''ddfsnow'', PyDict d3),
              (''ddfice'', PyDict d4), (''mb_mwea'', PyDict d5)])"
  by (auto simp add: ks_def split: sum.splits)

lemma ar_loop_all:
  "ar_loop l p chain_ns [] = Inr ar \<longleftrightarrow>
     (\<exists>x0 x1 x2 r0 r1 r2 c0 c1 c2.
        chain_samples p ''ar'' ''chain_0'' = Inr x0 \<and> rolling_ar x0 = Inr r0 \<and>
        chain_samples p ''ar'' ''chain_1'' = Inr x1 \<and> rolling_ar x1 = Inr r1 \<and>
        chain_samples p ''ar'' ''chain_2'' = Inr x2 \<and> rolling_ar x2 = Inr r2 \<and>
        stat_loop (stats l) (Inr r0) (enumerate 0 (take (length stats_ks - 2) stats_ks)) [] = Inr c0 \<and>
        stat_loop (stats l) (Inr r1) (enumerate 0 (take (length stats_ks - 2) stats_ks)) [] = Inr c1 \<and>
        stat_loop (stats l) (Inr r2) (enumerate 0 (take (length stats_ks - 2) stats_ks)) [] = Inr c2 \<and>
        ar = [(''chain_0'', PyDict c0), (''chain_1'', PyDict c1), (''chain_2'', PyDict c2)])"
  by (auto simp add: chain_ns_def chain_key_simps and_then_Inr_iff split: sum.splits)

lemma glac_stats_Inr:
  "glac_stats l p = Inr gs \<longleftrightarrow>
     (\<exists>d1 d2 d3 d4 d5 ar.
        var_stats l p ''kp'' = Inr d1 \<and> var_stats l p ''tbias'' = Inr d2 \<and>
        var_stats l p ''ddfsnow'' = Inr d3 \<and> var_stats l p ''ddfice'' = Inr d4 \<and>
        var_stats l p ''mb_mwea'' = Inr d5 \<and> ar_loop l p chain_ns [] = Inr ar \<and>
        gs = [(''kp'', PyDict d1), (''tbias'', PyDict d2), (''ddfsnow'', PyDict d3),
              (''ddfice'', PyDict d4), (''mb_mwea'', PyDict d5), (''ar'', PyDict ar)])"
  unfolding glac_stats_def and_then_Inr_iff var_loop_all
  by auto

lemma glac_stats_var:
  assumes "glac_stats l p = Inr gs" "k \<in> set ks"
  shows "\<exists>d. var_stats l p k = Inr d \<and> map_of gs k = Some (PyDict d)"
  using assms unfolding glac_stats_Inr by (auto simp add: ks_def)

lemma glac_stats_ar:
  assumes "glac_stats l p = Inr gs"
  shows "\<exists>ar. ar_loop l p chain_ns [] = Inr ar \<and> map_of gs ''ar'' = Some (PyDict ar)"
  using assms unfolding glac_stats_Inr by auto

lemma file_body_Inr:
  "file_body l fs rgi f g = Inr entry \<longleftrightarrow>
     (\<exists>js p gs row rest. fs f = Inr js \<and> js ''MCMC'' = Some p \<and> glac_stats l p = Inr gs \<and>
        filter (\<lambda>row. fst row = g) rgi = row # rest \<and>
        entry = AList.update ''area'' (PyFloat (snd row)) gs)"
  unfolding file_body_def and_then_Inr_iff
  by (auto split: option.splits list.splits)

subsection \<open>The rolling average\<close>

lemma fin_vals_append: "fin_vals (xs @ ys) = fin_vals xs @ fin_vals ys"
  by (induction xs rule: fin_vals.induct) simp_all

lemma fin_vals_rev: "fin_vals (rev xs) = rev (fin_vals xs)"
  by (induction xs rule: fin_vals.induct) (simp_all add: fin_vals_append)

lemma fin_vals_no_nan: "NaN \<notin> set xs \<Longrightarrow> map Fin (fin_vals xs) = xs"
  by (induction xs rule: fin_vals.induct) simp_all

lemma length_fin_vals: "NaN \<notin> set xs \<Longrightarrow> length (fin_vals xs) = length xs"
  by (induction xs rule: fin_vals.induct) simp_all

lemma fin_vals_scaled: "fin_vals (map (\<lambda>y. fmul y (Fin c)) ys) = map (\<lambda>r. r * c) (fin_vals ys)"
  by (induction ys rule: fin_vals.induct) simp_all

lemma nan_scaled: "NaN \<in> set (map (\<lambda>y. fmul y (Fin c)) ys) \<longleftrightarrow> NaN \<in> set ys"
  by (induction ys rule: fin_vals.induct) auto

lemma fin_vals_scaled_left: "fin_vals (map (\<lambda>y. fmul (Fin c) y) ys) = map (\<lambda>r. c * r) (fin_vals ys)"
  by (induction ys rule: fin_vals.induct) simp_all

lemma nan_scaled_left: "NaN \<in> set (map (\<lambda>y. fmul (Fin c) y) ys) \<longleftrightarrow> NaN \<in> set ys"
  by (induction ys rule: fin_vals.induct) auto

lemma np_sum_scaled:
  "np_sum (map (\<lambda>y. fmul y (Fin c)) ys) =
     (if NaN \<in> set ys then NaN else Fin (sum_list (fin_vals ys) * c))"
  unfolding np_sum_def nan_scaled fin_vals_scaled
  by (simp add: sum_list_mult_const)

lemma np_sum_scaled_left:
  "np_sum (map (\<lambda>y. fmul (Fin c) y) ys) =
     (if NaN \<in> set ys then NaN else Fin (c * sum_list (fin_vals ys)))"
  unfolding np_sum_def nan_scaled_left fin_vals_scaled_left
  by (simp add: sum_list_const_mult)

lemma window_nth: "i + n \<le> length x \<Longrightarrow> map (\<lambda>j. x ! (i + j)) [0..<n] = take n (drop i x)"
  by (rule nth_equalityI) simp_all

lemma np_mean_window:
  assumes "length ys = n" "0 < n"
  shows "np_sum (map (\<lambda>y. fmul y (Fin (1 / real n))) ys) = np_mean ys"
proof -
  have "ys \<noteq> []" using assms by auto
  then show ?thesis
    using assms by (simp add: np_sum_scaled np_mean_def mean_def length_fin_vals)
qed

lemma convolve_ones_long:
  assumes "0 < n" "n \<le> length x"
  shows "np_convolve_valid x (np_ones_div n (real n)) =
           Inr (map (\<lambda>i. np_mean (take n (drop i x))) [0..<length x - n + 1])"
proof -
  let ?k = "replicate n (Fin (1 / real n))"
  let ?F = "\<lambda>i. np_sum (map (\<lambda>j. fmul (x ! (i + j)) (?k ! (n - 1 - j))) [0..<n])"
  have x: "x \<noteq> []" using assms by auto
  have elt: "?F i = np_mean (take n (drop i x))" if "i < length x - n + 1" for i
  proof -
    have "map (\<lambda>j. fmul (x ! (i + j)) (?k ! (n - 1 - j))) [0..<n]
            = map (\<lambda>j. fmul (x ! (i + j)) (Fin (1 / real n))) [0..<n]"
      by (rule map_cong) (use assms in auto)
    also have "\<dots> = map (\<lambda>y. fmul y (Fin (1 / real n))) (map (\<lambda>j. x ! (i + j)) [0..<n])"
      by (simp add: comp_def)
    also have "\<dots> = map (\<lambda>y. fmul y (Fin (1 / real n))) (take n (drop i x))"
      using that assms by (subst window_nth) auto
    finally show ?thesis
      using that assms by (simp add: np_mean_window)
  qed
  have "np_convolve_valid x (np_ones_div n (real n)) = Inr (map ?F [0..<length x - n + 1])"
    using assms x by (simp add: np_convolve_valid_def np_ones_div_def Let_def del: upt_Suc)
  also have "map ?F [0..<length x - n + 1]
               = map (\<lambda>i. np_mean (take n (drop i x))) [0..<length x - n + 1]"
    by (rule map_cong) (use elt in \<open>auto simp del: upt_Suc\<close>)
  finally show ?thesis .
qed

lemma rolling_ar_long:
  assumes "100 \<le> length x"
  shows "rolling_ar x = Inr (map (\<lambda>i. np_mean (take 100 (drop i x))) [0..<length x - 99])"
proof -
  have "length x - 100 + 1 = length x - 99" using assms by simp
  then show ?thesis
    using convolve_ones_long [of 100 x] assms by (simp add: rolling_ar_def del: upt_Suc)
qed

lemma rolling_ar_empty: "rolling_ar [] = Inl ValueError"
  by (simp add: rolling_ar_def np_convolve_valid_def np_ones_div_def)

lemma rolling_ar_short:
  assumes "x \<noteq> []" "length x < 100"
  shows "rolling_ar x =
           Inr (replicate (101 - length x)
                  (if NaN \<in> set x then NaN else Fin (sum_list (fin_vals x) / 100)))"
proof -
  let ?k = "replicate 100 (Fin (1 / 100))"
  let ?F = "\<lambda>i. np_sum (map (\<lambda>j. fmul (?k ! (i + j)) (x ! (length x - 1 - j))) [0..<length x])"
  let ?v = "if NaN \<in> set x then NaN else Fin (sum_list (fin_vals x) / 100)"
  have elt: "?F i = ?v" if "i < 101 - length x" for i
  proof -
    have "map (\<lambda>j. fmul (?k ! (i + j)) (x ! (length x - 1 - j))) [0..<length x]
            = map (\<lambda>j. fmul (Fin (1 / 100)) (rev x ! j)) [0..<length x]"
      by (rule map_cong) (use that assms in \<open>auto simp add: rev_nth\<close>)
    also have "\<dots> = map (\<lambda>y. fmul (Fin (1 / 100)) y) (map (\<lambda>j. rev x ! j) [0..<length (rev x)])"
      by (simp add: comp_def)
    also have "\<dots> = map (\<lambda>y. fmul (Fin (1 / 100)) y) (rev x)"
      by (simp only: map_nth)
    finally show ?thesis
      by (simp add: np_sum_scaled_left fin_vals_rev)
  qed
  have len: "100 - length x + 1 = 101 - length x" using assms by simp
  have "rolling_ar x = Inr (map ?F [0..<100 - length x + 1])"
    using assms by (simp add: rolling_ar_def np_convolve_valid_def np_ones_div_def Let_def del: upt_Suc)
  also have "map ?F [0..<100 - length x + 1] = map (\<lambda>i. ?v) [0..<101 - length x]"
    unfolding len by (rule map_cong) (use elt in \<open>auto simp del: upt_Suc\<close>)
  also have "\<dots> = replicate (101 - length x) ?v"
    by (simp add: map_replicate_const del: upt_Suc)
  finally show ?thesis .
qed

lemma var_stats_chain:
  assumes "var_stats l p k = Inr d" "n \<in> set chain_ns"
  shows "\<exists>x mn mx p75 p25 ne.
           chain_samples p k (chain_key n) = Inr x \<and> x \<noteq> [] \<and>
           np_min x = Inr mn \<and> np_max x = Inr mx \<and>
           np_percentile l x 75 = Inr p75 \<and> np_percentile l x 25 = Inr p25 \<and>
           effective_n l x = Inr ne \<and>
           map_of d (chain_key n) = Some (PyDict
             [(''min'', PyFloat mn), (''max'', PyFloat mx), (''median'', PyFloat (np_median x)),
              (''mean'', PyFloat (np_mean x)), (''std'', PyFloat (np_std x)),
              (''iqr'', PyFloat (fsub p75 p25)), (''n_eff'', PyFloat ne)])"
proof -
  have ne: "x \<noteq> []" if "np_min x = Inr mn" for x mn
    using that by (auto simp add: np_min_def)
  from assms(1) obtain x0 x1 x2 c0 c1 c2 r where
    x: "chain_samples p k ''chain_0'' = Inr x0" "chain_samples p k ''chain_1'' = Inr x1"
       "chain_samples p k ''chain_2'' = Inr x2"
    and c: "stat_loop (stats l) (Inr x0) (enumerate 0 stats_ks) [] = Inr c0"
       "stat_loop (stats l) (Inr x1) (enumerate 0 stats_ks) [] = Inr c1"
       "stat_loop (stats l) (Inr x2) (enumerate 0 stats_ks) [] = Inr c2"
    and d: "d = [(''chain_0'', PyDict c0), (''chain_1'', PyDict c1), (''chain_2'', PyDict c2),
             (''rhat'', PyFloat r)]"
    unfolding var_stats_Inr by blast
  from assms(2) consider "n = 0" | "n = 1" | "n = 2"
    by (auto simp add: chain_ns_def)
  then show ?thesis
  proof cases
    case 1
    with x(1) c(1) d ne show ?thesis
      unfolding stat_loop_all by (fastforce simp add: chain_key_simps)
  next
    case 2
    with x(2) c(2) d ne show ?thesis
      unfolding stat_loop_all by (fastforce simp add: chain_key_simps)
  next
    case 3
    with x(3) c(3) d ne show ?thesis
      unfolding stat_loop_all by (fastforce simp add: chain_key_simps)
  qed
qed

subsection \<open>The per-chain statistics\<close>

text \<open>
  Claim C1. When the body of the loop succeeds for a calibration file, then for every
  variable \<open>k\<close> of \<^verbatim>\<open>ks\<close> and every chain \<open>n\<close> of \<^verbatim>\<open>chain_ns\<close> the entry of the glacier
  holds, under \<open>k\<close> and the chain's name, a dictionary of exactly seven statistics of that
  chain's sample list \<open>x\<close>, in this order: \<^verbatim>\<open>'min'\<close> and \<^verbatim>\<open>'max'\<close> (numpy's minimum and
  maximum, which exist because \<open>x\<close> is not empty, and are the least and the greatest
  sample when none is NaN), \<^verbatim>\<open>'median'\<close>, \<^verbatim>\<open>'mean'\<close>, \<^verbatim>\<open>'std'\<close>, \<^verbatim>\<open>'iqr'\<close> (the 75th
  percentile minus the 25th) and \<^verbatim>\<open>'n_eff'\<close> (the effective sample size of \<open>x\<close>).
\<close>

theorem chain_statistics_stored:
  assumes "file_body l fs rgi_glacs f g = Inr entry" and "k \<in> set ks" and "n \<in> set chain_ns"
  shows "\<exists>js prms_dict x d mn mx p75 p25 ne.
           fs f = Inr js \<and> js ''MCMC'' = Some prms_dict \<and>
           chain_samples prms_dict k (chain_key n) = Inr x \<and> x \<noteq> [] \<and>
           np_min x = Inr mn \<and> np_max x = Inr mx \<and>
           (NaN \<notin> set x \<longrightarrow>
              mn = Fin (Min (set (fin_vals x))) \<and> mx = Fin (Max (set (fin_vals x)))) \<and>
           np_percentile l x 75 = Inr p75 \<and> np_percentile l x 25 = Inr p25 \<and>
           effective_n l x = Inr ne \<and>
           map_of entry k = Some (PyDict d) \<and>
           map_of d (chain_key n) = Some (PyDict
             [(''min'', PyFloat mn), (''max'', PyFloat mx), (''median'', PyFloat (np_median x)),
              (''mean'', PyFloat (np_mean x)), (''std'', PyFloat (np_std x)),
              (''iqr'', PyFloat (fsub p75 p25)), (''n_eff'', PyFloat ne)])"
proof -
  from assms(1) obtain js p gs row rest where
    js: "fs f = Inr js" "js ''MCMC'' = Some p" and gs: "glac_stats l p = Inr gs"
    and entry: "entry = AList.update ''area'' (PyFloat (snd row)) gs"
    by (auto simp add: file_body_Inr)
  from glac_stats_var [OF gs assms(2)] obtain d where
    d: "var_stats l p k = Inr d" "map_of gs k = Some (PyDict d)" by blast
  have "k \<noteq> ''area''" using assms(2) by (auto simp add: ks_def)
  then have e: "map_of entry k = Some (PyDict d)"
    using d(2) entry by (simp add: update_conv')
  from var_stats_chain [OF d(1) assms(3)] obtain x mn mx p75 p25 ne where
    x: "chain_samples p k (chain_key n) = Inr x" "x \<noteq> []"
    and v: "np_min x = Inr mn" "np_max x = Inr mx"
    and q: "np_percentile l x 75 = Inr p75" "np_percentile l x 25 = Inr p25"
      "effective_n l x = Inr ne"
    and c: "map_of d (chain_key n) = Some (PyDict
             [(''min'', PyFloat mn), (''max'', PyFloat mx), (''median'', PyFloat (np_median x)),
              (''mean'', PyFloat (np_mean x)), (''std'', PyFloat (np_std x)),
              (''iqr'', PyFloat (fsub p75 p25)), (''n_eff'', PyFloat ne)])"
    by blast
  have m: "NaN \<notin> set x \<longrightarrow>
             mn = Fin (Min (set (fin_vals x))) \<and> mx = Fin (Max (set (fin_vals x)))"
    using v x(2) by (auto simp add: np_min_def np_max_def)
  from js x v m q e c show ?thesis by blast
qed

lemma fin_vals_replicate: "fin_vals (replicate n (Fin c)) = replicate n c"
  by (induction n) simp_all

lemma mean_replicate: "0 < n \<Longrightarrow> mean (replicate n c) = c"
  by (simp add: mean_def sum_list_replicate)

lemma np_mean_replicate: "0 < n \<Longrightarrow> np_mean (replicate n (Fin c)) = Fin c"
  by (auto simp add: np_mean_def fin_vals_replicate mean_replicate)

lemma example_chain_samples:
  "k \<in> set ks \<Longrightarrow> c \<in> {''chain_0'', ''chain_1'', ''chain_2''} \<Longrightarrow>
     chain_samples example_prms k c = Inr [Fin 1, Fin 3]"
  "c \<in> {''chain_0'', ''chain_1'', ''chain_2''} \<Longrightarrow>
     chain_samples example_prms ''ar'' c = Inr (replicate 100 (Fin (1 / 2)))"
  by (auto simp add: chain_samples_def example_prms_def ks_def chain_ns_def chain_key_simps)

lemma example_var_stats:
  "k \<in> set ks \<Longrightarrow> \<exists>d. var_stats example_lib example_prms k = Inr d"
  unfolding var_stats_Inr stat_loop_all
  by (simp add: example_chain_samples example_lib_def np_min_def np_max_def)

lemma example_glac_stats: "\<exists>gs. glac_stats example_lib example_prms = Inr gs"
proof -
  obtain ar where "ar_loop example_lib example_prms chain_ns [] = Inr ar"
    unfolding ar_loop_all stat_loop_ar
    by (simp add: example_chain_samples rolling_ar_long np_min_def np_max_def np_mean_replicate)
  moreover obtain d1 where "var_stats example_lib example_prms ''kp'' = Inr d1"
    using example_var_stats [of "''kp''"] by (auto simp add: ks_def)
  moreover obtain d2 where "var_stats example_lib example_prms ''tbias'' = Inr d2"
    using example_var_stats [of "''tbias''"] by (auto simp add: ks_def)
  moreover obtain d3 where "var_stats example_lib example_prms ''ddfsnow'' = Inr d3"
    using example_var_stats [of "''ddfsnow''"] by (auto simp add: ks_def)
  moreover obtain d4 where "var_stats example_lib example_prms ''ddfice'' = Inr d4"
    using example_var_stats [of "''ddfice''"] by (auto simp add: ks_def)
  moreover obtain d5 where "var_stats example_lib example_prms ''mb_mwea'' = Inr d5"
    using example_var_stats [of "''mb_mwea''"] by (auto simp add: ks_def)
  ultimately show ?thesis
    unfolding glac_stats_Inr by simp
qed

lemma example_file_body:
  "\<exists>entry. file_body example_lib example_fs example_rgi ''out/1.00001-modelprms_dict.json''
             ''1.00001'' = Inr entry"
  using example_glac_stats unfolding file_body_Inr
  by (auto simp add: example_fs_def example_rgi_def)

lemma median_pair: "median [a, b] = (a + b) / 2"
  by (cases "a \<le> b") (simp_all add: median_def)

lemma example_values:
  "np_min [Fin 1, Fin 3] = Inr (Fin 1)" "np_max [Fin 1, Fin 3] = Inr (Fin 3)"
  "np_median [Fin 1, Fin 3] = Fin 2" "np_mean [Fin 1, Fin 3] = Fin 2"
  "np_std [Fin 1, Fin 3] = Fin 1"
  by (simp_all add: np_min_def np_max_def np_median_def np_mean_def np_std_def median_pair
        mean_def std_def)

theorem chain_statistics_stored_witness:
  "\<exists>entry d.
     file_body example_lib example_fs example_rgi ''out/1.00001-modelprms_dict.json'' ''1.00001''
       = Inr entry \<and>
     map_of entry ''kp'' = Some (PyDict d) \<and>
     map_of d ''chain_0'' = Some (PyDict
       [(''min'', PyFloat (Fin 1)), (''max'', PyFloat (Fin 3)), (''median'', PyFloat (Fin 2)),
        (''mean'', PyFloat (Fin 2)), (''std'', PyFloat (Fin 1)),
        (''iqr'', PyFloat (Fin 50)), (''n_eff'', PyFloat (Fin 2))])"
proof -
  obtain entry where entry:
    "file_body example_lib example_fs example_rgi ''out/1.00001-modelprms_dict.json'' ''1.00001''
       = Inr entry"
    using example_file_body by blast
  have k: "''kp'' \<in> set ks" by (simp add: ks_def)
  have n: "0 \<in> set chain_ns" by (simp add: chain_ns_def)
  from chain_statistics_stored [OF entry k n] obtain js prms_dict x d mn mx p75 p25 ne where
    js: "example_fs ''out/1.00001-modelprms_dict.json'' = Inr js" "js ''MCMC'' = Some prms_dict"
    and x: "chain_samples prms_dict ''kp'' (chain_key 0) = Inr x"
    and v: "np_min x = Inr mn" "np_max x = Inr mx" "np_percentile example_lib x 75 = Inr p75"
       "np_percentile example_lib x 25 = Inr p25" "effective_n example_lib x = Inr ne"
    and d: "map_of entry ''kp'' = Some (PyDict d)"
       "map_of d (chain_key 0) = Some (PyDict
             [(''min'', PyFloat mn), (''max'', PyFloat mx), (''median'', PyFloat (np_median x)),
              (''mean'', PyFloat (np_mean x)), (''std'', PyFloat (np_std x)),
              (''iqr'', PyFloat (fsub p75 p25)), (''n_eff'', PyFloat ne)])"
    by blast
  from js have "prms_dict = example_prms" by (auto simp add: example_fs_def)
  with x k have x': "x = [Fin 1, Fin 3]"
    by (simp add: example_chain_samples chain_key_simps)
  from v have "mn = Fin 1" "mx = Fin 3" "p75 = Fin 75" "p25 = Fin 25" "ne = Fin 2"
    unfolding x' example_values by (simp_all add: example_lib_def)
  with d x' entry show ?thesis
    by (simp add: example_values chain_key_simps)
qed

subsection \<open>The Gelman-Rubin statistic\<close>

lemma stat_loop_no_rhat:
  "stat_loop (stats l) arg (enumerate 0 stats_ks) [] = Inr c \<Longrightarrow> map_of c ''rhat'' = None"
  unfolding stat_loop_all by auto

text \<open>
  Claim C2. When the body of the loop succeeds for a calibration file, then for every
  variable \<open>k\<close> of \<^verbatim>\<open>ks\<close> the three chains have one length (they stack into a
  chains-by-samples array), the Gelman-Rubin statistic is computed once, from the array of
  all three chains, and the dictionary stored under \<open>k\<close> has exactly four entries: the
  three per-chain dictionaries and the statistic under \<^verbatim>\<open>'rhat'\<close>. No per-chain
  dictionary has a key \<^verbatim>\<open>'rhat'\<close>.
\<close>

theorem rhat_stored_per_variable:
  assumes "file_body l fs rgi_glacs f g = Inr entry" and "k \<in> set ks"
  shows "\<exists>js prms_dict x0 x1 x2 c0 c1 c2 r.
           fs f = Inr js \<and> js ''MCMC'' = Some prms_dict \<and>
           chain_samples prms_dict k ''chain_0'' = Inr x0 \<and>
           chain_samples prms_dict k ''chain_1'' = Inr x1 \<and>
           chain_samples prms_dict k ''chain_2'' = Inr x2 \<and>
           length x1 = length x0 \<and> length x2 = length x0 \<and>
           rhat l [x0, x1, x2] = Inr r \<and>
           map_of entry k = Some (PyDict
             [(''chain_0'', PyDict c0), (''chain_1'', PyDict c1), (''chain_2'', PyDict c2),
              (''rhat'', PyFloat r)]) \<and>
           map_of c0 ''rhat'' = None \<and> map_of c1 ''rhat'' = None \<and> map_of c2 ''rhat'' = None"
proof -
  from assms(1) obtain js p gs row rest where
    js: "fs f = Inr js" "js ''MCMC'' = Some p" and gs: "glac_stats l p = Inr gs"
    and entry: "entry = AList.update ''area'' (PyFloat (snd row)) gs"
    by (auto simp add: file_body_Inr)
  from glac_stats_var [OF gs assms(2)] obtain d where
    d: "var_stats l p k = Inr d" "map_of gs k = Some (PyDict d)" by blast
  have "k \<noteq> ''area''" using assms(2) by (auto simp add: ks_def)
  then have e: "map_of entry k = Some (PyDict d)"
    using d(2) entry by (simp add: update_conv')
  from d(1) obtain x0 x1 x2 c0 c1 c2 r where
    x: "chain_samples p k ''chain_0'' = Inr x0" "chain_samples p k ''chain_1'' = Inr x1"
       "chain_samples p k ''chain_2'' = Inr x2"
    and c: "stat_loop (stats l) (Inr x0) (enumerate 0 stats_ks) [] = Inr c0"
       "stat_loop (stats l) (Inr x1) (enumerate 0 stats_ks) [] = Inr c1"
       "stat_loop (stats l) (Inr x2) (enumerate 0 stats_ks) [] = Inr c2"
    and len: "length x1 = length x0" "length x2 = length x0"
    and r: "rhat l [x0, x1, x2] = Inr r"
    and dd: "d = [(''chain_0'', PyDict c0), (''chain_1'', PyDict c1), (''chain_2'', PyDict c2),
             (''rhat'', PyFloat r)]"
    unfolding var_stats_Inr by blast
  have "map_of c0 ''rhat'' = None" "map_of c1 ''rhat'' = None" "map_of c2 ''rhat'' = None"
    using c by (simp_all add: stat_loop_no_rhat)
  with js x len r e dd show ?thesis by blast
qed

theorem rhat_stored_per_variable_witness:
  "\<exists>entry c0 c1 c2.
     file_body example_lib example_fs example_rgi ''out/1.00001-modelprms_dict.json'' ''1.00001''
       = Inr entry \<and>
     map_of entry ''tbias'' = Some (PyDict
       [(''chain_0'', PyDict c0), (''chain_1'', PyDict c1), (''chain_2'', PyDict c2),
        (''rhat'', PyFloat (Fin 1))]) \<and>
     map_of c0 ''rhat'' = None \<and> map_of c1 ''rhat'' = None \<and> map_of c2 ''rhat'' = None"
proof -
  obtain entry where entry:
    "file_body example_lib example_fs example_rgi ''out/1.00001-modelprms_dict.json'' ''1.00001''
       = Inr entry"
    using example_file_body by blast
  have k: "''tbias'' \<in> set ks" by (simp add: ks_def)
  from rhat_stored_per_variable [OF entry k] obtain x0 x1 x2 c0 c1 c2 r where
    r: "rhat example_lib [x0, x1, x2] = Inr r"
    and d: "map_of entry ''tbias'' = Some (PyDict
             [(''chain_0'', PyDict c0), (''chain_1'', PyDict c1), (''chain_2'', PyDict c2),
              (''rhat'', PyFloat r)])"
       "map_of c0 ''rhat'' = None" "map_of c1 ''rhat'' = None" "map_of c2 ''rhat'' = None"
    by blast
  from r have "r = Fin 1" by (simp add: example_lib_def)
  with d entry show ?thesis by blast
qed

subsection \<open>The acceptance rate\<close>

lemma ar_loop_chain:
  assumes "ar_loop l p chain_ns [] = Inr ar" "n \<in> set chain_ns"
  shows "\<exists>x r mn mx.
           chain_samples p ''ar'' (chain_key n) = Inr x \<and> rolling_ar x = Inr r \<and>
           np_min r = Inr mn \<and> np_max r = Inr mx \<and>
           map_of ar (chain_key n) = Some (PyDict
             [(''min'', PyFloat mn), (''max'', PyFloat mx), (''median'', PyFloat (np_median r)),
              (''mean'', PyFloat (np_mean r)), (''std'', PyFloat (np_std r))])"
proof -
  from assms(1) obtain x0 x1 x2 r0 r1 r2 c0 c1 c2 where
    x: "chain_samples p ''ar'' ''chain_0'' = Inr x0" "chain_samples p ''ar'' ''chain_1'' = Inr x1"
       "chain_samples p ''ar'' ''chain_2'' = Inr x2"
    and r: "rolling_ar x0 = Inr r0" "rolling_ar x1 = Inr r1" "rolling_ar x2 = Inr r2"
    and c: "stat_loop (stats l) (Inr r0) (enumerate 0 (take (length stats_ks - 2) stats_ks)) [] = Inr c0"
       "stat_loop (stats l) (Inr r1) (enumerate 0 (take (length stats_ks - 2) stats_ks)) [] = Inr c1"
       "stat_loop (stats l) (Inr r2) (enumerate 0 (take (length stats_ks - 2) stats_ks)) [] = Inr c2"
    and ar: "ar = [(''chain_0'', PyDict c0), (''chain_1'', PyDict c1), (''chain_2'', PyDict c2)]"
    unfolding ar_loop_all by blast
  from assms(2) consider "n = 0" | "n = 1" | "n = 2"
    by (auto simp add: chain_ns_def)
  then show ?thesis
  proof cases
    case 1
    with x(1) r(1) c(1) ar show ?thesis
      unfolding stat_loop_ar by (fastforce simp add: chain_key_simps)
  next
    case 2
    with x(2) r(2) c(2) ar show ?thesis
      unfolding stat_loop_ar by (fastforce simp add: chain_key_simps)
  next
    case 3
    with x(3) r(3) c(3) ar show ?thesis
      unfolding stat_loop_ar by (fastforce simp add: chain_key_simps)
  qed
qed

lemma rolling_ar_window:
  assumes "rolling_ar x = Inr r" "100 \<le> length x"
  shows "length r = length x - 99" and "\<And>i. i < length r \<Longrightarrow> r ! i = np_mean (take 100 (drop i x))"
  using assms by (auto simp add: rolling_ar_long simp del: upt_Suc)

text \<open>
  Claim C4. When the body of the loop succeeds for a calibration file, then for every
  chain \<open>n\<close> of \<^verbatim>\<open>chain_ns\<close> the statistics stored under \<^verbatim>\<open>'ar'\<close> and the chain's name are
  those of the rolling series \<open>r\<close> of the chain's acceptance rates \<open>x\<close>, and they are
  exactly five: \<^verbatim>\<open>'min'\<close>, \<^verbatim>\<open>'max'\<close>, \<^verbatim>\<open>'median'\<close>, \<^verbatim>\<open>'mean'\<close> and \<^verbatim>\<open>'std'\<close> (neither
  \<^verbatim>\<open>'iqr'\<close> nor \<^verbatim>\<open>'n_eff'\<close>). When \<open>x\<close> has at least 100 entries, \<open>r\<close> has 99 entries
  fewer, and its entry \<open>i\<close> is the mean of the entries \<open>i\<close> to \<open>i + 99\<close> of \<open>x\<close>.
\<close>

theorem acceptance_rate_statistics:
  assumes "file_body l fs rgi_glacs f g = Inr entry" and "n \<in> set chain_ns"
  shows "\<exists>js prms_dict x r ar mn mx.
           fs f = Inr js \<and> js ''MCMC'' = Some prms_dict \<and>
           chain_samples prms_dict ''ar'' (chain_key n) = Inr x \<and>
           rolling_ar x = Inr r \<and>
           (100 \<le> length x \<longrightarrow>
              length r = length x - 99 \<and>
              (\<forall>i<length r. r ! i = np_mean (take 100 (drop i x)))) \<and>
           np_min r = Inr mn \<and> np_max r = Inr mx \<and>
           map_of entry ''ar'' = Some (PyDict ar) \<and>
           map_of ar (chain_key n) = Some (PyDict
             [(''min'', PyFloat mn), (''max'', PyFloat mx), (''median'', PyFloat (np_median r)),
              (''mean'', PyFloat (np_mean r)), (''std'', PyFloat (np_std r))])"
proof -
  from assms(1) obtain js p gs row rest where
    js: "fs f = Inr js" "js ''MCMC'' = Some p" and gs: "glac_stats l p = Inr gs"
    and entry: "entry = AList.update ''area'' (PyFloat (snd row)) gs"
    by (auto simp add: file_body_Inr)
  from glac_stats_ar [OF gs] obtain ar where
    ar: "ar_loop l p chain_ns [] = Inr ar" "map_of gs ''ar'' = Some (PyDict ar)" by blast
  have e: "map_of entry ''ar'' = Some (PyDict ar)"
    using ar(2) entry by (simp add: update_conv')
  from ar_loop_chain [OF ar(1) assms(2)] obtain x r mn mx where
    x: "chain_samples p ''ar'' (chain_key n) = Inr x" "rolling_ar x = Inr r"
    and v: "np_min r = Inr mn" "np_max r = Inr mx"
       "map_of ar (chain_key n) = Some (PyDict
             [(''min'', PyFloat mn), (''max'', PyFloat mx), (''median'', PyFloat (np_median r)),
              (''mean'', PyFloat (np_mean r)), (''std'', PyFloat (np_std r))])"
    by blast
  have "100 \<le> length x \<longrightarrow>
          length r = length x - 99 \<and> (\<forall>i<length r. r ! i = np_mean (take 100 (drop i x)))"
    using rolling_ar_window [OF x(2)] by blast
  with js x v e show ?thesis by blast
qed

lemma mean_single: "mean [a] = a"
  by (simp add: mean_def)

lemma median_single: "median [a] = a"
  by (simp add: median_def)

lemma std_single: "std [a] = 0"
  by (simp add: std_def mean_def)

theorem acceptance_rate_statistics_witness:
  "\<exists>entry ar.
     file_body example_lib example_fs example_rgi ''out/1.00001-modelprms_dict.json'' ''1.00001''
       = Inr entry \<and>
     map_of entry ''ar'' = Some (PyDict ar) \<and>
     map_of ar ''chain_2'' = Some (PyDict
       [(''min'', PyFloat (Fin (1 / 2))), (''max'', PyFloat (Fin (1 / 2))),
        (''median'', PyFloat (Fin (1 / 2))), (''mean'', PyFloat (Fin (1 / 2))),
        (''std'', PyFloat (Fin 0))])"
proof -
  obtain entry where entry:
    "file_body example_lib example_fs example_rgi ''out/1.00001-modelprms_dict.json'' ''1.00001''
       = Inr entry"
    using example_file_body by blast
  have n: "2 \<in> set chain_ns" by (simp add: chain_ns_def)
  from acceptance_rate_statistics [OF entry n] obtain js prms_dict x r ar mn mx where
    js: "example_fs ''out/1.00001-modelprms_dict.json'' = Inr js" "js ''MCMC'' = Some prms_dict"
    and x: "chain_samples prms_dict ''ar'' (chain_key 2) = Inr x"
    and r: "100 \<le> length x \<longrightarrow>
              length r = length x - 99 \<and> (\<forall>i<length r. r ! i = np_mean (take 100 (drop i x)))"
    and v: "np_min r = Inr mn" "np_max r = Inr mx"
    and d: "map_of entry ''ar'' = Some (PyDict ar)"
       "map_of ar (chain_key 2) = Some (PyDict
             [(''min'', PyFloat mn), (''max'', PyFloat mx), (''median'', PyFloat (np_median r)),
              (''mean'', PyFloat (np_mean r)), (''std'', PyFloat (np_std r))])"
    by blast
  from js have "prms_dict = example_prms" by (auto simp add: example_fs_def)
  with x have x': "x = replicate 100 (Fin (1 / 2))"
    by (simp add: example_chain_samples chain_key_simps)
  with r have "length r = 1" "r ! 0 = Fin (1 / 2)"
    by (simp_all add: np_mean_replicate)
  then have r': "r = [Fin (1 / 2)]"
    by (cases r) simp_all
  have "np_min [Fin (1 / 2)] = Inr (Fin (1 / 2))" "np_max [Fin (1 / 2)] = Inr (Fin (1 / 2))"
    by (simp_all add: np_min_def np_max_def)
  with v have "mn = Fin (1 / 2)" "mx = Fin (1 / 2)"
    unfolding r' by simp_all
  with d entry show ?thesis
    unfolding r'
    by (simp add: chain_key_simps np_median_def np_mean_def np_std_def median_single
          mean_single std_single)
qed

subsection \<open>The key of a file\<close>

lemma split_on_length: "length (split_on c s) = Suc (length (filter (\<lambda>x. x = c) s))"
  by (induction s) (auto split: list.splits)

lemma split_on_not_Nil: "split_on c s \<noteq> []"
  using split_on_length [of c s] by auto

lemma glac_key_parts:
  "glac_key f = Inr g \<longleftrightarrow>
     (\<exists>reg frac rest. split_on CHR ''.'' (last (split_on CHR ''/'' f)) = reg # frac # rest \<and>
        g = reg @ ''.'' @ take 5 frac)"
proof (cases "split_on CHR ''.'' (last (split_on CHR ''/'' f))")
  case Nil
  then show ?thesis by (simp add: split_on_not_Nil)
next
  case (Cons reg tl1)
  then show ?thesis
    by (cases tl1) (auto simp add: glac_key_def)
qed

lemma ends_with_dot:
  assumes "ends_with ''-modelprms_dict.json'' s"
  shows "CHR ''.'' \<in> set s"
proof -
  from assms obtain n where "drop n s = ''-modelprms_dict.json''"
    unfolding ends_with_def by blast
  then have "CHR ''.'' \<in> set (drop n s)" by simp
  then show ?thesis by (rule in_set_dropD)
qed

lemma in_glob_key:
  assumes "in_glob f"
  shows "\<exists>g. glac_key f = Inr g"
proof -
  let ?b = "last (split_on CHR ''/'' f)"
  have "CHR ''.'' \<in> set ?b"
    using assms unfolding in_glob_def by (rule ends_with_dot)
  then have "filter (\<lambda>x. x = CHR ''.'') ?b \<noteq> []"
    by (simp add: filter_empty_conv)
  then have "2 \<le> length (split_on CHR ''.'' ?b)"
    unfolding split_on_length by (cases "filter (\<lambda>x. x = CHR ''.'') ?b") simp_all
  then obtain reg frac rest where "split_on CHR ''.'' ?b = reg # frac # rest"
    by (cases "split_on CHR ''.'' ?b" rule: list.exhaust; cases "tl (split_on CHR ''.'' ?b)") auto
  then show ?thesis
    unfolding glac_key_parts by blast
qed

subsection \<open>The loop over the files\<close>

lemma file_step_ok:
  assumes "glac_key f = Inr g" "file_body l fs rgi f g = Inr gs"
  shows "file_step l fs rgi st f =
           Inr (st\<lparr>glacno_var := Some g, mcmc_stats := AList.update g (PyDict gs) (mcmc_stats st)\<rparr>)"
  using assms by (simp add: file_step_def)

lemma file_step_caught:
  assumes "glac_key f = Inr g" "file_body l fs rgi f g = Inl err"
  shows "file_step l fs rgi st f =
           Inr (st\<lparr>glacno_var := Some g, printed := printed st @ [(g, err)]\<rparr>)"
  using assms by (simp add: file_step_def on_error_def)

lemma file_step_total:
  assumes "in_glob f"
  shows "\<exists>st'. file_step l fs rgi st f = Inr st'"
proof -
  from in_glob_key [OF assms] obtain g where g: "glac_key f = Inr g" by blast
  show ?thesis
    by (cases "file_body l fs rgi f g") (simp_all add: file_step_ok [OF g] file_step_caught [OF g])
qed

lemma file_step_cases:
  assumes "file_step l fs rgi st f = Inr st'"
  obtains (stored) g gs where "glac_key f = Inr g" "file_body l fs rgi f g = Inr gs"
      "mcmc_stats st' = AList.update g (PyDict gs) (mcmc_stats st)"
    | (caught) "mcmc_stats st' = mcmc_stats st"
      "\<And>g gs. glac_key f = Inr g \<Longrightarrow> file_body l fs rgi f g \<noteq> Inr gs"
proof (cases "glac_key f")
  case (Inl e)
  with assms have "mcmc_stats st' = mcmc_stats st"
    by (auto simp add: file_step_def on_error_def split: option.splits)
  with Inl caught show ?thesis by simp
next
  case (Inr g)
  show ?thesis
  proof (cases "file_body l fs rgi f g")
    case (Inl err)
    with Inr assms have "mcmc_stats st' = mcmc_stats st"
      by (auto simp add: file_step_caught)
    moreover have "file_body l fs rgi f g' \<noteq> Inr gs" if "glac_key f = Inr g'" for g' gs
      using that Inl Inr by auto
    ultimately show ?thesis by (rule caught)
  next
    case gs: (Inr gs)
    with Inr assms have "mcmc_stats st' = AList.update g (PyDict gs) (mcmc_stats st)"
      by (auto simp add: file_step_ok)
    with Inr gs stored show ?thesis by blast
  qed
qed

lemma file_step_keys:
  assumes "file_step l fs rgi st f = Inr st'"
  shows "fst ` set (mcmc_stats st') =
           fst ` set (mcmc_stats st) \<union> {g. glac_key f = Inr g \<and> (\<exists>gs. file_body l fs rgi f g = Inr gs)}"
  using assms
proof (cases rule: file_step_cases)
  case (stored g gs)
  then show ?thesis by (auto simp add: dom_update)
next
  case caught
  then show ?thesis by auto
qed

lemma file_step_other:
  assumes "file_step l fs rgi st f = Inr st'"
    and "\<And>gs. glac_key f = Inr g \<Longrightarrow> file_body l fs rgi f g \<noteq> Inr gs"
  shows "map_of (mcmc_stats st') g = map_of (mcmc_stats st) g"
  using assms(1)
proof (cases rule: file_step_cases)
  case (stored g' gs)
  with assms(2) have "g' \<noteq> g" by auto
  with stored show ?thesis by (simp add: update_conv')
next
  case caught
  then show ?thesis by simp
qed

lemma file_loop_append:
  "file_loop l fs rgi st (xs @ ys) =
     and_then (file_loop l fs rgi st xs) (\<lambda>st1. file_loop l fs rgi st1 ys)"
  by (induction xs arbitrary: st) (simp_all split: sum.splits)

lemma file_loop_total:
  assumes "list_all in_glob files"
  shows "\<exists>st'. file_loop l fs rgi st files = Inr st'"
  using assms
proof (induction files arbitrary: st)
  case Nil
  then show ?case by simp
next
  case (Cons f files)
  then obtain st1 where "file_step l fs rgi st f = Inr st1"
    using file_step_total [of f l fs rgi st] by auto
  with Cons show ?case by simp
qed

lemma file_loop_keys:
  assumes "file_loop l fs rgi st files = Inr st'"
  shows "fst ` set (mcmc_stats st') =
           fst ` set (mcmc_stats st) \<union>
           {g. \<exists>f \<in> set files. glac_key f = Inr g \<and> (\<exists>gs. file_body l fs rgi f g = Inr gs)}"
  using assms
proof (induction files arbitrary: st)
  case Nil
  then show ?case by simp
next
  case (Cons f files)
  then obtain st1 where s1: "file_step l fs rgi st f = Inr st1"
    and s2: "file_loop l fs rgi st1 files = Inr st'"
    by (auto split: sum.splits)
  show ?case
    unfolding Cons.IH [OF s2] file_step_keys [OF s1] by auto
qed

lemma file_loop_other:
  assumes "file_loop l fs rgi st files = Inr st'"
    and "\<And>f gs. f \<in> set files \<Longrightarrow> glac_key f = Inr g \<Longrightarrow> file_body l fs rgi f g \<noteq> Inr gs"
  shows "map_of (mcmc_stats st') g = map_of (mcmc_stats st) g"
  using assms
proof (induction files arbitrary: st)
  case Nil
  then show ?case by simp
next
  case (Cons f files)
  then obtain st1 where s1: "file_step l fs rgi st f = Inr st1"
    and s2: "file_loop l fs rgi st1 files = Inr st'"
    by (auto split: sum.splits)
  have "map_of (mcmc_stats st') g = map_of (mcmc_stats st1) g"
    using Cons.IH [OF s2] Cons.prems(2) by simp
  also have "\<dots> = map_of (mcmc_stats st) g"
    using file_step_other [OF s1] Cons.prems(2) by simp
  finally show ?case .
qed

lemma file_loop_last_writer:
  assumes "file_loop l fs rgi st (pre @ f # post) = Inr st'"
    and "glac_key f = Inr g" and "file_body l fs rgi f g = Inr gs"
    and "\<And>f' gs'. f' \<in> set post \<Longrightarrow> glac_key f' = Inr g \<Longrightarrow> file_body l fs rgi f' g \<noteq> Inr gs'"
  shows "map_of (mcmc_stats st') g = Some (PyDict gs)"
proof -
  from assms(1) obtain st1 where s1: "file_loop l fs rgi st pre = Inr st1"
    and s2: "file_loop l fs rgi st1 (f # post) = Inr st'"
    unfolding file_loop_append and_then_Inr_iff by blast
  let ?st2 = "st1\<lparr>glacno_var := Some g, mcmc_stats := AList.update g (PyDict gs) (mcmc_stats st1)\<rparr>"
  from s2 have s3: "file_loop l fs rgi ?st2 post = Inr st'"
    by (simp add: file_step_ok [OF assms(2,3)])
  have "map_of (mcmc_stats st') g = map_of (mcmc_stats ?st2) g"
    using file_loop_other [OF s3] assms(4) by blast
  then show ?thesis by (simp add: update_conv')
qed

text \<open>
  Claim C5. For the files of the glob, the loop never stops early: it returns a final
  state. A file whose loading or processing raises is caught: its step changes only the
  binding of \<^verbatim>\<open>glacno\<close> and appends one printed message, so \<^verbatim>\<open>mcmc_stats\<close> is as
  before, and the loop goes on with the remaining files to the same final state. A key
  is in the final \<^verbatim>\<open>mcmc_stats\<close> exactly when the whole computation succeeded for a
  file with that key.
\<close>

theorem exceptions_caught_per_file:
  assumes "list_all in_glob files"
  shows "\<exists>st'. file_loop l fs rgi_glacs init_state files = Inr st' \<and>
           (\<forall>g. g \<in> fst ` set (mcmc_stats st') \<longleftrightarrow>
                  (\<exists>f \<in> set files. glac_key f = Inr g \<and>
                     (\<exists>gs. file_body l fs rgi_glacs f g = Inr gs))) \<and>
           (\<forall>pre f post g err.
              files = pre @ f # post \<and> glac_key f = Inr g \<and>
              file_body l fs rgi_glacs f g = Inl err \<longrightarrow>
              (\<exists>st1. file_loop l fs rgi_glacs init_state pre = Inr st1 \<and>
                 file_step l fs rgi_glacs st1 f =
                   Inr (st1\<lparr>glacno_var := Some g, printed := printed st1 @ [(g, err)]\<rparr>) \<and>
                 file_loop l fs rgi_glacs
                   (st1\<lparr>glacno_var := Some g, printed := printed st1 @ [(g, err)]\<rparr>) post
                   = Inr st'))"
proof -
  from file_loop_total [OF assms] obtain st' where
    st': "file_loop l fs rgi_glacs init_state files = Inr st'" by blast
  have keys: "g \<in> fst ` set (mcmc_stats st') \<longleftrightarrow>
                (\<exists>f \<in> set files. glac_key f = Inr g \<and>
                   (\<exists>gs. file_body l fs rgi_glacs f g = Inr gs))" for g
    unfolding file_loop_keys [OF st'] by (simp add: init_state_def)
  have caught: "\<exists>st1. file_loop l fs rgi_glacs init_state pre = Inr st1 \<and>
                 file_step l fs rgi_glacs st1 f =
                   Inr (st1\<lparr>glacno_var := Some g, printed := printed st1 @ [(g, err)]\<rparr>) \<and>
                 file_loop l fs rgi_glacs
                   (st1\<lparr>glacno_var := Some g, printed := printed st1 @ [(g, err)]\<rparr>) post
                   = Inr st'"
    if "files = pre @ f # post" "glac_key f = Inr g" "file_body l fs rgi_glacs f g = Inl err"
    for pre f post g err
  proof -
    from st' [unfolded that(1) file_loop_append and_then_Inr_iff]
    obtain st1 where s1: "file_loop l fs rgi_glacs init_state pre = Inr st1"
      and s2: "file_loop l fs rgi_glacs st1 (f # post) = Inr st'"
      by blast
    from s2 show ?thesis
      using s1 by (simp add: file_step_caught [OF that(2,3)])
  qed
  show ?thesis
  proof (rule exI [of _ st'], intro conjI)
    show "file_loop l fs rgi_glacs init_state files = Inr st'" by (rule st')
  next
    show "\<forall>g. g \<in> fst ` set (mcmc_stats st') \<longleftrightarrow>
            (\<exists>f \<in> set files. glac_key f = Inr g \<and>
               (\<exists>gs. file_body l fs rgi_glacs f g = Inr gs))"
      by (intro allI) (rule keys)
  next
    show "\<forall>pre f post g err.
            files = pre @ f # post \<and> glac_key f = Inr g \<and>
            file_body l fs rgi_glacs f g = Inl err \<longrightarrow>
            (\<exists>st1. file_loop l fs rgi_glacs init_state pre = Inr st1 \<and>
               file_step l fs rgi_glacs st1 f =
                 Inr (st1\<lparr>glacno_var := Some g, printed := printed st1 @ [(g, err)]\<rparr>) \<and>
               file_loop l fs rgi_glacs
                 (st1\<lparr>glacno_var := Some g, printed := printed st1 @ [(g, err)]\<rparr>) post
                 = Inr st')"
      by (intro allI impI, elim conjE) (rule caught)
  qed
qed

lemma example_keys:
  "glac_key ''out/1.00001-modelprms_dict.json'' = Inr ''1.00001''"
  "glac_key ''out/1.00002-modelprms_dict.json'' = Inr ''1.00002''"
  "glac_key ''out/1.000019-modelprms_dict.json'' = Inr ''1.00001''"
  by code_simp+

lemma example_in_glob: "list_all in_glob example_files"
  by code_simp

lemma example_missing:
  "file_body example_lib example_fs example_rgi ''out/1.00002-modelprms_dict.json'' g
     = Inl (OtherError ''FileNotFoundError'')"
  by (simp add: file_body_def example_fs_def)


theorem exceptions_caught_per_file_witness:
  "\<exists>st'. file_loop example_lib example_fs example_rgi init_state example_files = Inr st' \<and>
     ''1.00001'' \<in> fst ` set (mcmc_stats st') \<and>
     ''1.00002'' \<notin> fst ` set (mcmc_stats st')"
proof -
  from exceptions_caught_per_file [OF example_in_glob, of example_lib example_fs example_rgi]
  obtain st' where all:
    "file_loop example_lib example_fs example_rgi init_state example_files = Inr st' \<and>
     (\<forall>g. g \<in> fst ` set (mcmc_stats st') \<longleftrightarrow>
            (\<exists>f \<in> set example_files. glac_key f = Inr g \<and>
               (\<exists>gs. file_body example_lib example_fs example_rgi f g = Inr gs)))"
    by (elim exE conjE) (rule that, rule conjI)
  then have st': "file_loop example_lib example_fs example_rgi init_state example_files = Inr st'"
    and keys: "\<And>g. g \<in> fst ` set (mcmc_stats st') \<longleftrightarrow>
            (\<exists>f \<in> set example_files. glac_key f = Inr g \<and>
               (\<exists>gs. file_body example_lib example_fs example_rgi f g = Inr gs))"
    by simp_all
  have f1: "''out/1.00001-modelprms_dict.json'' \<in> set example_files"
    by (simp add: example_files_def)
  have "''1.00001'' \<in> fst ` set (mcmc_stats st')"
    unfolding keys using example_file_body example_keys(1) f1 by (intro bexI conjI)
  moreover have "''1.00002'' \<notin> fst ` set (mcmc_stats st')"
    unfolding keys by (simp add: example_files_def example_keys example_missing)
  ultimately show ?thesis using st' by (intro exI conjI)
qed

subsection \<open>Keys and overwriting\<close>

lemma same_parts_same_key:
  assumes "split_on CHR ''.'' (last (split_on CHR ''/'' f1)) = reg # a # r1"
    and "split_on CHR ''.'' (last (split_on CHR ''/'' f2)) = reg # b # r2"
    and "take 5 a = take 5 b"
  shows "glac_key f1 = glac_key f2"
  using assms by (simp add: glac_key_def)

lemma np_min_replicate: "0 < n \<Longrightarrow> np_min (replicate n (Fin c)) = Inr (Fin c)"
  by (auto simp add: np_min_def fin_vals_replicate)

lemma np_max_replicate: "0 < n \<Longrightarrow> np_max (replicate n (Fin c)) = Inr (Fin c)"
  by (auto simp add: np_max_def fin_vals_replicate)

lemma rolling_ar_one: "rolling_ar [Fin 1] = Inr (replicate 100 (Fin (1 / 100)))"
  using rolling_ar_short [of "[Fin 1]"] by simp

lemma short_chain_samples:
  "k \<in> set ks \<Longrightarrow> c \<in> {''chain_0'', ''chain_1'', ''chain_2''} \<Longrightarrow>
     chain_samples short_prms k c = Inr [Fin 1, Fin 3]"
  "c \<in> {''chain_0'', ''chain_1'', ''chain_2''} \<Longrightarrow>
     chain_samples short_prms ''ar'' c = Inr [Fin 1]"
  by (auto simp add: chain_samples_def short_prms_def ks_def chain_ns_def chain_key_simps)

lemma short_var_stats:
  "k \<in> set ks \<Longrightarrow> \<exists>d. var_stats example_lib short_prms k = Inr d"
  unfolding var_stats_Inr stat_loop_all
  by (simp add: short_chain_samples example_lib_def np_min_def np_max_def)

lemma short_ar_loop: "\<exists>ar. ar_loop example_lib short_prms chain_ns [] = Inr ar"
  unfolding ar_loop_all stat_loop_ar
  by (simp add: short_chain_samples rolling_ar_one np_min_replicate np_max_replicate)

lemma short_glac_stats: "\<exists>gs. glac_stats example_lib short_prms = Inr gs"
proof -
  obtain ar where "ar_loop example_lib short_prms chain_ns [] = Inr ar"
    using short_ar_loop by blast
  moreover obtain d1 where "var_stats example_lib short_prms ''kp'' = Inr d1"
    using short_var_stats [of "''kp''"] by (auto simp add: ks_def)
  moreover obtain d2 where "var_stats example_lib short_prms ''tbias'' = Inr d2"
    using short_var_stats [of "''tbias''"] by (auto simp add: ks_def)
  moreover obtain d3 where "var_stats example_lib short_prms ''ddfsnow'' = Inr d3"
    using short_var_stats [of "''ddfsnow''"] by (auto simp add: ks_def)
  moreover obtain d4 where "var_stats example_lib short_prms ''ddfice'' = Inr d4"
    using short_var_stats [of "''ddfice''"] by (auto simp add: ks_def)
  moreover obtain d5 where "var_stats example_lib short_prms ''mb_mwea'' = Inr d5"
    using short_var_stats [of "''mb_mwea''"] by (auto simp add: ks_def)
  ultimately show ?thesis
    unfolding glac_stats_Inr by simp
qed

lemma short_file_body:
  "\<exists>entry. file_body example_lib example_fs example_rgi ''out/1.000019-modelprms_dict.json''
             ''1.00001'' = Inr entry"
  using short_glac_stats unfolding file_body_Inr
  by (auto simp add: example_fs_def example_rgi_def)

text \<open>
  Claim C9. For the files of the glob the loop returns, and every key of the final
  \<^verbatim>\<open>mcmc_stats\<close> is, for one of the files, the first piece of the file's name (split at
  the dots), a dot, and the first five characters of the second piece. Two files whose
  names agree on the first piece and on the first five characters of the second have the
  same key. When two files with the same key both succeed, the later one's statistics
  are what the key holds after it, and to the end unless a still later file with that key
  succeeds.
\<close>

theorem keys_from_file_names:
  assumes "list_all in_glob files"
  shows "\<exists>st'. file_loop l fs rgi_glacs init_state files = Inr st' \<and>
           (\<forall>g \<in> fst ` set (mcmc_stats st').
              \<exists>f \<in> set files. \<exists>reg frac rest.
                split_on CHR ''.'' (last (split_on CHR ''/'' f)) = reg # frac # rest \<and>
                g = reg @ ''.'' @ take 5 frac) \<and>
           (\<forall>f1 f2 reg a b r1 r2.
              split_on CHR ''.'' (last (split_on CHR ''/'' f1)) = reg # a # r1 \<and>
              split_on CHR ''.'' (last (split_on CHR ''/'' f2)) = reg # b # r2 \<and>
              take 5 a = take 5 b \<longrightarrow> glac_key f1 = glac_key f2) \<and>
           (\<forall>pre f1 mid f2 post g gs1 gs2.
              files = pre @ f1 # mid @ f2 # post \<and>
              glac_key f1 = Inr g \<and> file_body l fs rgi_glacs f1 g = Inr gs1 \<and>
              glac_key f2 = Inr g \<and> file_body l fs rgi_glacs f2 g = Inr gs2 \<and>
              (\<forall>f' \<in> set post. \<forall>gs'. glac_key f' = Inr g \<longrightarrow>
                 file_body l fs rgi_glacs f' g \<noteq> Inr gs') \<longrightarrow>
              map_of (mcmc_stats st') g = Some (PyDict gs2))"
proof -
  from file_loop_total [OF assms] obtain st' where
    st': "file_loop l fs rgi_glacs init_state files = Inr st'" by blast
  have form: "\<exists>f \<in> set files. \<exists>reg frac rest.
                split_on CHR ''.'' (last (split_on CHR ''/'' f)) = reg # frac # rest \<and>
                g = reg @ ''.'' @ take 5 frac"
    if "g \<in> fst ` set (mcmc_stats st')" for g
  proof -
    from that obtain f where "f \<in> set files" "glac_key f = Inr g"
      unfolding file_loop_keys [OF st'] by (auto simp add: init_state_def)
    then show ?thesis
      unfolding glac_key_parts by blast
  qed
  have last: "map_of (mcmc_stats st') g = Some (PyDict gs2)"
    if "files = pre @ f1 # mid @ f2 # post" "glac_key f2 = Inr g"
      "file_body l fs rgi_glacs f2 g = Inr gs2"
      "\<forall>f' \<in> set post. \<forall>gs'. glac_key f' = Inr g \<longrightarrow> file_body l fs rgi_glacs f' g \<noteq> Inr gs'"
    for pre f1 mid f2 post g gs2
  proof -
    have run: "file_loop l fs rgi_glacs init_state ((pre @ f1 # mid) @ f2 # post) = Inr st'"
      using st' that(1) by simp
    have "file_body l fs rgi_glacs f' g \<noteq> Inr gs'"
      if "f' \<in> set post" "glac_key f' = Inr g" for f' gs'
      using that \<open>\<forall>f' \<in> set post. \<forall>gs'. glac_key f' = Inr g \<longrightarrow>
        file_body l fs rgi_glacs f' g \<noteq> Inr gs'\<close> by blast
    with run that(2,3) show ?thesis
      by (rule file_loop_last_writer)
  qed
  show ?thesis
  proof (rule exI [of _ st'], intro conjI)
    show "file_loop l fs rgi_glacs init_state files = Inr st'" by (rule st')
  next
    show "\<forall>g \<in> fst ` set (mcmc_stats st').
              \<exists>f \<in> set files. \<exists>reg frac rest.
                split_on CHR ''.'' (last (split_on CHR ''/'' f)) = reg # frac # rest \<and>
                g = reg @ ''.'' @ take 5 frac"
      by (intro ballI) (rule form)
  next
    show "\<forall>f1 f2 reg a b r1 r2.
              split_on CHR ''.'' (last (split_on CHR ''/'' f1)) = reg # a # r1 \<and>
              split_on CHR ''.'' (last (split_on CHR ''/'' f2)) = reg # b # r2 \<and>
              take 5 a = take 5 b \<longrightarrow> glac_key f1 = glac_key f2"
      by (intro allI impI, elim conjE) (rule same_parts_same_key)
  next
    show "\<forall>pre f1 mid f2 post g gs1 gs2.
              files = pre @ f1 # mid @ f2 # post \<and>
              glac_key f1 = Inr g \<and> file_body l fs rgi_glacs f1 g = Inr gs1 \<and>
              glac_key f2 = Inr g \<and> file_body l fs rgi_glacs f2 g = Inr gs2 \<and>
              (\<forall>f' \<in> set post. \<forall>gs'. glac_key f' = Inr g \<longrightarrow>
                 file_body l fs rgi_glacs f' g \<noteq> Inr gs') \<longrightarrow>
              map_of (mcmc_stats st') g = Some (PyDict gs2)"
      by (intro allI impI, elim conjE) (rule last)
  qed
qed

theorem keys_from_file_names_witness:
  "\<exists>st' gs2.
     file_loop example_lib example_fs example_rgi init_state example_files = Inr st' \<and>
     file_body example_lib example_fs example_rgi ''out/1.000019-modelprms_dict.json'' ''1.00001''
       = Inr gs2 \<and>
     map_of (mcmc_stats st') ''1.00001'' = Some (PyDict gs2)"
proof -
  obtain gs1 where gs1:
    "file_body example_lib example_fs example_rgi ''out/1.00001-modelprms_dict.json'' ''1.00001''
       = Inr gs1"
    using example_file_body by blast
  obtain gs2 where gs2:
    "file_body example_lib example_fs example_rgi ''out/1.000019-modelprms_dict.json'' ''1.00001''
       = Inr gs2"
    using short_file_body by blast
  from keys_from_file_names [OF example_in_glob, of example_lib example_fs example_rgi]
  obtain st' where
    st': "file_loop example_lib example_fs example_rgi init_state example_files = Inr st'"
    and later: "\<forall>pre f1 mid f2 post g gs1 gs2.
              example_files = pre @ f1 # mid @ f2 # post \<and>
              glac_key f1 = Inr g \<and> file_body example_lib example_fs example_rgi f1 g = Inr gs1 \<and>
              glac_key f2 = Inr g \<and> file_body example_lib example_fs example_rgi f2 g = Inr gs2 \<and>
              (\<forall>f' \<in> set post. \<forall>gs'. glac_key f' = Inr g \<longrightarrow>
                 file_body example_lib example_fs example_rgi f' g \<noteq> Inr gs') \<longrightarrow>
              map_of (mcmc_stats st') g = Some (PyDict gs2)"
    by (elim exE conjE) (rule that)
  have split: "example_files =
      [] @ ''out/1.00001-modelprms_dict.json'' # []
         @ ''out/1.000019-modelprms_dict.json'' # [''out/1.00002-modelprms_dict.json'']"
    by (simp add: example_files_def)
  have "map_of (mcmc_stats st') ''1.00001'' = Some (PyDict gs2)"
    using later [rule_format, of "[]" "''out/1.00001-modelprms_dict.json''"
        "[]" "''out/1.000019-modelprms_dict.json''" "[''out/1.00002-modelprms_dict.json'']"
        "''1.00001''" gs1 gs2]
      split gs1 gs2 example_keys
    by simp
  with st' gs2 show ?thesis by (intro exI conjI)
qed

subsection \<open>Short acceptance-rate chains\<close>

text \<open>
  Claim C10. The notebook's comment on this step is \<^verbatim>\<open>take 100-samle rolling average of
  the acceptance rate\<close>, and the claim is what such an average gives: for a chain of
  fewer than 100 samples an empty array, an exception from \<^verbatim>\<open>np.min\<close>, and the glacier
  left out. The code does something else on a short chain. For the one-sample chain
  \<open>[1.0]\<close> \<^verbatim>\<open>np.convolve\<close> swaps its arguments and returns 100 entries, each the sum of
  the chain divided by 100, that is \<open>0.01\<close> for an acceptance rate of \<open>1.0\<close>; their
  minimum exists, no exception is raised, and with the example library the loop stores
  the glacier of a file whose three acceptance-rate chains are that chain.
\<close>

theorem short_chain_counterexample:
  "rolling_ar [Fin 1] = Inr (replicate 100 (Fin (1 / 100))) \<and>
   np_min (replicate 100 (Fin (1 / 100))) = Inr (Fin (1 / 100)) \<and>
   example_fs ''out/1.000019-modelprms_dict.json'' = Inr [''MCMC'' \<mapsto> short_prms] \<and>
   chain_samples short_prms ''ar'' ''chain_0'' = Inr [Fin 1] \<and>
   (case file_loop example_lib example_fs example_rgi init_state
           [''out/1.000019-modelprms_dict.json''] of
      Inl e \<Rightarrow> False
    | Inr st \<Rightarrow> ''1.00001'' \<in> fst ` set (mcmc_stats st))"
proof -
  obtain gs where
    "file_body example_lib example_fs example_rgi ''out/1.000019-modelprms_dict.json'' ''1.00001''
       = Inr gs"
    using short_file_body by blast
  then have "file_loop example_lib example_fs example_rgi init_state
               [''out/1.000019-modelprms_dict.json'']
             = Inr (init_state\<lparr>glacno_var := Some ''1.00001'',
                      mcmc_stats := AList.update ''1.00001'' (PyDict gs) (mcmc_stats init_state)\<rparr>)"
    by (simp add: file_step_ok [OF example_keys(3)])
  then show ?thesis
    by (simp add: rolling_ar_one np_min_replicate short_chain_samples example_fs_def dom_update)
qed

subsection \<open>The multi-GCM statistics\<close>

lemma map_raise_open:
  "map_raise opn fns = Inr dss \<Longrightarrow>
     map_raise (\<lambda>f. and_then (opn f) g) fns = map_raise g dss"
  by (induction fns arbitrary: dss) (auto split: sum.splits)

lemma map_raise_pure: "map_raise (\<lambda>x. Inr (h x)) xs = Inr (map h xs)"
  by (induction xs) simp_all

lemma map_raise_length: "map_raise g xs = Inr ys \<Longrightarrow> length ys = length xs"
  by (induction xs arbitrary: ys) (auto split: sum.splits)

lemma np_vstack_ok:
  assumes "rows \<noteq> []" "list_all (\<lambda>r. length r = n) rows"
  shows "np_vstack rows = Inr rows" and "length (hd rows) = n"
proof -
  from assms show n: "length (hd rows) = n"
    by (cases rows) simp_all
  with assms show "np_vstack rows = Inr rows"
    by (simp add: np_vstack_def)
qed

lemma axis0_cols:
  assumes "length (hd a) = n"
  shows "axis0 red a = map (\<lambda>j. red (column a j)) [0..<n]"
  using assms by (simp add: axis0_def)

lemma scenario_stats_closed:
  assumes "fns \<noteq> []"
    and "map_raise open_dataset fns = Inr dss"
    and "map_raise (\<lambda>ds. resample_sum (glac_runoff_monthly ds)) dss = Inr runoff"
    and "list_all (\<lambda>r. length r = nr) runoff"
    and "list_all (\<lambda>ds. length (drop 1 (glac_area_annual ds)) = na) dss"
    and "list_all (\<lambda>ds. length (drop 1 (glac_mass_annual ds)) = nm) dss"
  shows "scenario_stats resample_sum open_dataset fns year =
    Inr ([(''mean_runoff'', map (\<lambda>j. nanmean1 (column runoff j)) [0..<nr]),
          (''std_runoff'', map (\<lambda>j. nanstd1 (column runoff j)) [0..<nr]),
          (''min_runoff'', map (\<lambda>j. nanmin1 (column runoff j)) [0..<nr]),
          (''max_runoff'', map (\<lambda>j. nanmax1 (column runoff j)) [0..<nr]),
          (''mean_area'',
             map (\<lambda>j. nanmean1 (column (map (\<lambda>ds. drop 1 (glac_area_annual ds)) dss) j)) [0..<na]),
          (''std_area'',
             map (\<lambda>j. nanstd1 (column (map (\<lambda>ds. drop 1 (glac_area_annual ds)) dss) j)) [0..<na]),
          (''min_area'',
             map (\<lambda>j. nanmin1 (column (map (\<lambda>ds. drop 1 (glac_area_annual ds)) dss) j)) [0..<na]),
          (''max_area'',
             map (\<lambda>j. nanmax1 (column (map (\<lambda>ds. drop 1 (glac_area_annual ds)) dss) j)) [0..<na]),
          (''std_mass'',
             map (\<lambda>j. nanstd1 (column (map (\<lambda>ds. drop 1 (glac_mass_annual ds)) dss) j)) [0..<nm]),
          (''mean_mass'',
             map (\<lambda>j. nanmean1 (column (map (\<lambda>ds. drop 1 (glac_mass_annual ds)) dss) j)) [0..<nm]),
          (''min_mass'',
             map (\<lambda>j. nanmin1 (column (map (\<lambda>ds. drop 1 (glac_mass_annual ds)) dss) j)) [0..<nm]),
          (''max_mass'',
             map (\<lambda>j. nanmax1 (column (map (\<lambda>ds. drop 1 (glac_mass_annual ds)) dss) j)) [0..<nm])],
         Some (butlast (year_coord (last dss))))"
    (is "_ = ?rhs")
proof -
  let ?area = "map (\<lambda>ds. drop 1 (glac_area_annual ds)) dss"
  let ?mass = "map (\<lambda>ds. drop 1 (glac_mass_annual ds)) dss"
  let ?my = "map (\<lambda>ds. (drop 1 (glac_mass_annual ds), butlast (year_coord ds))) dss"
  have dss: "dss \<noteq> []"
    using assms(1) map_raise_length [OF assms(2)] by auto
  have runoff: "runoff \<noteq> []"
    using dss map_raise_length [OF assms(3)] by auto
  have r1: "map_raise (\<lambda>f. and_then (open_dataset f)
              (\<lambda>ds. resample_sum (glac_runoff_monthly ds))) fns = Inr runoff"
    using assms(3) by (simp add: map_raise_open [OF assms(2)])
  have r2: "map_raise (\<lambda>f. and_then (open_dataset f)
              (\<lambda>ds. Inr (drop 1 (glac_area_annual ds)))) fns = Inr ?area"
    by (simp add: map_raise_open [OF assms(2)] map_raise_pure)
  have r3: "map_raise (\<lambda>f. and_then (open_dataset f)
              (\<lambda>ds. Inr (drop 1 (glac_mass_annual ds), butlast (year_coord ds)))) fns = Inr ?my"
    by (simp add: map_raise_open [OF assms(2)] map_raise_pure)
  have my: "map fst ?my = ?mass" "(?my = []) = False"
    "snd (last ?my) = butlast (year_coord (last dss))"
    using dss by (simp_all add: comp_def last_map)
  have v1: "np_vstack runoff = Inr runoff" "length (hd runoff) = nr"
    using np_vstack_ok [OF runoff assms(4)] by simp_all
  have v2: "np_vstack ?area = Inr ?area" "length (hd ?area) = na"
    using np_vstack_ok [of ?area na] dss assms(5) by (simp_all add: list_all_iff)
  have v3: "np_vstack ?mass = Inr ?mass" "length (hd ?mass) = nm"
    using np_vstack_ok [of ?mass nm] dss assms(6) by (simp_all add: list_all_iff)
  have "scenario_stats resample_sum open_dataset fns year =
    Inr (AList.update ''max_mass'' (map (\<lambda>j. nanmax1 (column ?mass j)) [0..<nm])
        (AList.update ''min_mass'' (map (\<lambda>j. nanmin1 (column ?mass j)) [0..<nm])
        (AList.update ''mean_mass'' (map (\<lambda>j. nanmean1 (column ?mass j)) [0..<nm])
        (AList.update ''std_mass'' (map (\<lambda>j. nanstd1 (column ?mass j)) [0..<nm])
        (AList.update ''max_area'' (map (\<lambda>j. nanmax1 (column ?area j)) [0..<na])
        (AList.update ''min_area'' (map (\<lambda>j. nanmin1 (column ?area j)) [0..<na])
        (AList.update ''std_area'' (map (\<lambda>j. nanstd1 (column ?area j)) [0..<na])
        (AList.update ''mean_area'' (map (\<lambda>j. nanmean1 (column ?area j)) [0..<na])
        (AList.update ''max_runoff'' (map (\<lambda>j. nanmax1 (column runoff j)) [0..<nr])
        (AList.update ''min_runoff'' (map (\<lambda>j. nanmin1 (column runoff j)) [0..<nr])
        (AList.update ''std_runoff'' (map (\<lambda>j. nanstd1 (column runoff j)) [0..<nr])
        (AList.update ''mean_runoff'' (map (\<lambda>j. nanmean1 (column runoff j)) [0..<nr])
          []))))))))))),
      Some (butlast (year_coord (last dss))))"
    by (simp only: scenario_stats_def r1 r2 r3 and_then_simps v1 v2 v3 Let_def my if_False
          np_nanmean_def np_nanstd_def np_nanmin_def np_nanmax_def
          axis0_cols [OF v1(2)] axis0_cols [OF v2(2)] axis0_cols [OF v3(2)])
  also have "\<dots> = ?rhs"
    by simp
  finally show ?thesis .
qed


text \<open>
  Claim C3. For a scenario with at least one GCM output file, when every file opens, every
  runoff series is resampled, and the series of each quantity have one length across the
  GCMs, the body of the loop returns, and the loop stores under the scenario, a
  dictionary of exactly twelve entries: for runoff, area and mass (the annual area and
  mass without their first entry), under \<^verbatim>\<open>'mean_<q>'\<close>, \<^verbatim>\<open>'std_<q>'\<close>, \<^verbatim>\<open>'min_<q>'\<close>
  and \<^verbatim>\<open>'max_<q>'\<close>, a list as long as one series whose entry \<open>j\<close> is the NaN-ignoring
  mean, standard deviation, minimum and maximum of the entries \<open>j\<close> of all GCMs' series.
\<close>

theorem ensemble_statistics:
  assumes "glob scenario \<noteq> []"
    and "map_raise open_dataset (glob scenario) = Inr dss"
    and "map_raise (\<lambda>ds. resample_sum (glac_runoff_monthly ds)) dss = Inr runoff"
    and "list_all (\<lambda>r. length r = nr) runoff"
    and "list_all (\<lambda>ds. length (drop 1 (glac_area_annual ds)) = na) dss"
    and "list_all (\<lambda>ds. length (drop 1 (glac_mass_annual ds)) = nm) dss"
  shows "\<exists>d.
    d = [(''mean_runoff'', map (\<lambda>j. nanmean1 (column runoff j)) [0..<nr]),
         (''std_runoff'', map (\<lambda>j. nanstd1 (column runoff j)) [0..<nr]),
         (''min_runoff'', map (\<lambda>j. nanmin1 (column runoff j)) [0..<nr]),
         (''max_runoff'', map (\<lambda>j. nanmax1 (column runoff j)) [0..<nr]),
         (''mean_area'',
            map (\<lambda>j. nanmean1 (column (map (\<lambda>ds. drop 1 (glac_area_annual ds)) dss) j)) [0..<na]),
         (''std_area'',
            map (\<lambda>j. nanstd1 (column (map (\<lambda>ds. drop 1 (glac_area_annual ds)) dss) j)) [0..<na]),
         (''min_area'',
            map (\<lambda>j. nanmin1 (column (map (\<lambda>ds. drop 1 (glac_area_annual ds)) dss) j)) [0..<na]),
         (''max_area'',
            map (\<lambda>j. nanmax1 (column (map (\<lambda>ds. drop 1 (glac_area_annual ds)) dss) j)) [0..<na]),
         (''std_mass'',
            map (\<lambda>j. nanstd1 (column (map (\<lambda>ds. drop 1 (glac_mass_annual ds)) dss) j)) [0..<nm]),
         (''mean_mass'',
            map (\<lambda>j. nanmean1 (column (map (\<lambda>ds. drop 1 (glac_mass_annual ds)) dss) j)) [0..<nm]),
         (''min_mass'',
            map (\<lambda>j. nanmin1 (column (map (\<lambda>ds. drop 1 (glac_mass_annual ds)) dss) j)) [0..<nm]),
         (''max_mass'',
            map (\<lambda>j. nanmax1 (column (map (\<lambda>ds. drop 1 (glac_mass_annual ds)) dss) j)) [0..<nm])] \<and>
    scenario_stats resample_sum open_dataset (glob scenario) year
      = Inr (d, Some (butlast (year_coord (last dss)))) \<and>
    scenario_loop resample_sum open_dataset glob (scenario # rest) (results, year)
      = scenario_loop resample_sum open_dataset glob rest
          (AList.update scenario d results, Some (butlast (year_coord (last dss))))"
  by (simp add: scenario_stats_closed [OF assms])

theorem ensemble_statistics_witness:
  "\<exists>d. scenario_loop example_resample example_open (\<lambda>s. [''gcm_a'', ''gcm_b''])
          [''ssp245''] ([], None)
          = Inr ([(''ssp245'', d)], Some [2000, 2001]) \<and>
     map_of d ''mean_runoff'' = Some [Fin 2, Fin 2] \<and>
     map_of d ''max_mass'' = Some [Fin 6, NaN]"
proof -
  let ?a = "\<lparr>glac_runoff_monthly = [Fin 1, Fin 2], glac_area_annual = [Fin 9, Fin 4, Fin 2],
             glac_mass_annual = [Fin 8, Fin 6, NaN], year_coord = [2000, 2001, 2002]\<rparr>"
  let ?b = "\<lparr>glac_runoff_monthly = [Fin 3, NaN], glac_area_annual = [Fin 9, Fin 6, Fin 4],
             glac_mass_annual = [Fin 8, Fin 2, NaN], year_coord = [2000, 2001, 2002]\<rparr>"
  have h1: "[''gcm_a'', ''gcm_b''] \<noteq> []" by simp
  have h2: "map_raise example_open [''gcm_a'', ''gcm_b''] = Inr [?a, ?b]"
    by (simp add: example_open_def)
  have h3: "map_raise (\<lambda>ds. example_resample (glac_runoff_monthly ds)) [?a, ?b]
              = Inr [[Fin 1, Fin 2], [Fin 3, NaN]]"
    by (simp add: example_resample_def)
  have h4: "list_all (\<lambda>r. length r = 2) [[Fin 1, Fin 2], [Fin 3, NaN]]" by simp
  have h5: "list_all (\<lambda>ds. length (drop 1 (glac_area_annual ds)) = 2) [?a, ?b]" by simp
  have h6: "list_all (\<lambda>ds. length (drop 1 (glac_mass_annual ds)) = 2) [?a, ?b]" by simp
  have two: "[0..<2] = [0, 1]" by (simp add: upt_rec)
  from ensemble_statistics [of "\<lambda>s. [''gcm_a'', ''gcm_b'']" "''ssp245''", OF h1 h2 h3 h4 h5 h6,
      of None "[]" "[]"]
  obtain d where
    d: "d = [(''mean_runoff'', map (\<lambda>j. nanmean1 (column [[Fin 1, Fin 2], [Fin 3, NaN]] j)) [0..<2]),
         (''std_runoff'', map (\<lambda>j. nanstd1 (column [[Fin 1, Fin 2], [Fin 3, NaN]] j)) [0..<2]),
         (''min_runoff'', map (\<lambda>j. nanmin1 (column [[Fin 1, Fin 2], [Fin 3, NaN]] j)) [0..<2]),
         (''max_runoff'', map (\<lambda>j. nanmax1 (column [[Fin 1, Fin 2], [Fin 3, NaN]] j)) [0..<2]),
         (''mean_area'',
            map (\<lambda>j. nanmean1 (column (map (\<lambda>ds. drop 1 (glac_area_annual ds)) [?a, ?b]) j)) [0..<2]),
         (''std_area'',
            map (\<lambda>j. nanstd1 (column (map (\<lambda>ds. drop 1 (glac_area_annual ds)) [?a, ?b]) j)) [0..<2]),
         (''min_area'',
            map (\<lambda>j. nanmin1 (column (map (\<lambda>ds. drop 1 (glac_area_annual ds)) [?a, ?b]) j)) [0..<2]),
         (''max_area'',
            map (\<lambda>j. nanmax1 (column (map (\<lambda>ds. drop 1 (glac_area_annual ds)) [?a, ?b]) j)) [0..<2]),
         (''std_mass'',
            map (\<lambda>j. nanstd1 (column (map (\<lambda>ds. drop 1 (glac_mass_annual ds)) [?a, ?b]) j)) [0..<2]),
         (''mean_mass'',
            map (\<lambda>j. nanmean1 (column (map (\<lambda>ds. drop 1 (glac_mass_annual ds)) [?a, ?b]) j)) [0..<2]),
         (''min_mass'',
            map (\<lambda>j. nanmin1 (column (map (\<lambda>ds. drop 1 (glac_mass_annual ds)) [?a, ?b]) j)) [0..<2]),
         (''max_mass'',
            map (\<lambda>j. nanmax1 (column (map (\<lambda>ds. drop 1 (glac_mass_annual ds)) [?a, ?b]) j)) [0..<2])]"
    and run: "scenario_loop example_resample example_open (\<lambda>s. [''gcm_a'', ''gcm_b''])
          [''ssp245''] ([], None)
          = scenario_loop example_resample example_open (\<lambda>s. [''gcm_a'', ''gcm_b'']) []
              (AList.update ''ssp245'' d [], Some (butlast (year_coord (last [?a, ?b]))))"
    by (elim exE conjE) (rule that)
  from run have "scenario_loop example_resample example_open (\<lambda>s. [''gcm_a'', ''gcm_b''])
          [''ssp245''] ([], None) = Inr ([(''ssp245'', d)], Some [2000, 2001])"
    by simp
  moreover from d have "map_of d ''mean_runoff'' = Some [Fin 2, Fin 2]"
    unfolding two by (simp add: column_def nanmean1_def mean_def)
  moreover from d have "map_of d ''max_mass'' = Some [Fin 6, NaN]"
    unfolding two by (simp add: column_def nanmax1_def)
  ultimately show ?thesis by (intro exI conjI)
qed

subsection \<open>The period averages\<close>

lemma py_index_first:
  assumes "v \<in> set xs"
  shows "\<exists>i. py_index xs v = Inr i \<and> i < length xs \<and> xs ! i = v \<and> (\<forall>j<i. xs ! j \<noteq> v)"
  using assms
proof (induction xs)
  case Nil
  then show ?case by simp
next
  case (Cons x xs)
  show ?case
  proof (cases "x = v")
    case True
    then show ?thesis by simp
  next
    case False
    with Cons obtain i where i: "py_index xs v = Inr i" "i < length xs" "xs ! i = v"
      "\<forall>j<i. xs ! j \<noteq> v" by auto
    have "\<forall>j<Suc i. (x # xs) ! j \<noteq> v"
      using False i(4) by (auto simp add: nth_Cons split: nat.splits)
    with False i show ?thesis by simp
  qed
qed

lemma py_slice_nth: "py_slice xs a b = map (\<lambda>i. xs ! i) [a..<min b (length xs)]"
proof (rule nth_equalityI)
  show "length (py_slice xs a b) = length (map (\<lambda>i. xs ! i) [a..<min b (length xs)])"
    by (simp add: py_slice_def min.commute)
next
  fix i
  assume "i < length (py_slice xs a b)"
  then have i: "a + i < b" "a + i < length xs"
    by (simp_all add: py_slice_def)
  then have "py_slice xs a b ! i = xs ! (a + i)"
    by (simp add: py_slice_def)
  also have "\<dots> = map (\<lambda>i. xs ! i) [a..<min b (length xs)] ! i"
    using i by simp
  finally show "py_slice xs a b ! i = map (\<lambda>i. xs ! i) [a..<min b (length xs)] ! i" .
qed

lemma period_ends: "period \<in> set periods \<Longrightarrow> snd period = fst period + 19"
  by (auto simp add: periods_def)

text \<open>
  Claim C6 fails as stated: with both endpoint years in the year list, the values that
  are averaged need not be 20. The year list is the one of the last file of the last
  scenario, while the runoff list is the scenario's own; when the runoff list is the
  shorter one, the slice stops at its end. For the period 2001 to 2020, the model years
  2000 to 2020 and a mean runoff of the three entries 7, 1 and 3, the indices are 1 and
  20, the slice holds the two entries 1 and 3, and the reported average and spread are
  their mean 2 and standard deviation 1.
\<close>

theorem period_average_counterexample:
  "(2001, 2020) \<in> set periods \<and>
   2001 \<in> set clipped_year \<and> 2020 \<in> set clipped_year \<and>
   py_index clipped_year 2001 = Inr 1 \<and> py_index clipped_year 2020 = Inr 20 \<and>
   map_of clipped_results ''ssp245'' = Some [(''mean_runoff'', [Fin 7, Fin 1, Fin 3])] \<and>
   py_slice [Fin 7, Fin 1, Fin 3] 1 (20 + 1) = [Fin 1, Fin 3] \<and>
   length (py_slice [Fin 7, Fin 1, Fin 3] 1 (20 + 1)) = 2 \<and>
   period_stats clipped_results clipped_year ''ssp245'' (2001, 2020) = Inr (Fin 2, Fin 1)"
proof -
  have i1: "py_index clipped_year 2001 = Inr 1"
    unfolding clipped_year_def by code_simp
  have i2: "py_index clipped_year 2020 = Inr 20"
    unfolding clipped_year_def by code_simp
  have m: "2001 \<in> set clipped_year" "2020 \<in> set clipped_year"
    unfolding clipped_year_def by code_simp+
  have sl: "py_slice [Fin 7, Fin 1, Fin 3] 1 (20 + 1) = [Fin 1, Fin 3]"
    by (simp add: py_slice_def)
  have sl': "py_slice [Fin 7, Fin 1, Fin 3] (Suc 0) 21 = [Fin 1, Fin 3]"
    by (simp add: py_slice_def)
  have "period_stats clipped_results clipped_year ''ssp245'' (2001, 2020) = Inr (Fin 2, Fin 1)"
    by (simp add: period_stats_def i1 i2 clipped_results_def sl' example_values)
  with i1 i2 m sl show ?thesis
    by (simp add: periods_def clipped_results_def)
qed

text \<open>
  Claim C6, amended. For each of the five periods and every scenario, when both endpoint
  years occur in the year list, \<^verbatim>\<open>runoff_avg\<close> and \<^verbatim>\<open>runoff_sig\<close> are numpy's mean and
  standard deviation of the entries of the scenario's \<^verbatim>\<open>'mean_runoff'\<close> list from the
  index \<open>a\<close> of the period's first year to the index \<open>b\<close> of its last year, both
  included, as far as the list reaches (the indices are those of the first occurrence;
  entries beyond the end of the list are clipped by the slice). When the year list holds
  consecutive years and the runoff list is at least as long, \<open>b = a + 19\<close> and these are
  20 values.
\<close>

theorem period_average:
  assumes "period \<in> set periods"
    and "fst period \<in> set year" and "snd period \<in> set year"
    and "map_of results scenario = Some d" and "map_of d ''mean_runoff'' = Some m"
  shows "\<exists>a b.
           py_index year (fst period) = Inr a \<and> a < length year \<and> year ! a = fst period \<and>
           (\<forall>j<a. year ! j \<noteq> fst period) \<and>
           py_index year (snd period) = Inr b \<and> b < length year \<and> year ! b = snd period \<and>
           (\<forall>j<b. year ! j \<noteq> snd period) \<and>
           period_stats results year scenario period =
             Inr (np_mean (map (\<lambda>i. m ! i) [a..<min (b + 1) (length m)]),
                  np_std (map (\<lambda>i. m ! i) [a..<min (b + 1) (length m)])) \<and>
           ((\<exists>y0. year = map (\<lambda>i. y0 + int i) [0..<length year]) \<and> length year \<le> length m \<longrightarrow>
              b = a + 19 \<and> length (map (\<lambda>i. m ! i) [a..<min (b + 1) (length m)]) = 20)"
proof -
  from py_index_first [OF assms(2)] obtain a where
    a: "py_index year (fst period) = Inr a" "a < length year" "year ! a = fst period"
       "\<forall>j<a. year ! j \<noteq> fst period" by blast
  from py_index_first [OF assms(3)] obtain b where
    b: "py_index year (snd period) = Inr b" "b < length year" "year ! b = snd period"
       "\<forall>j<b. year ! j \<noteq> snd period" by blast
  have stats: "period_stats results year scenario period =
             Inr (np_mean (map (\<lambda>i. m ! i) [a..<min (b + 1) (length m)]),
                  np_std (map (\<lambda>i. m ! i) [a..<min (b + 1) (length m)]))"
    using a(1) b(1) assms(4,5)
    by (simp add: period_stats_def py_slice_nth del: upt_Suc)
  have twenty: "b = a + 19 \<and> length (map (\<lambda>i. m ! i) [a..<min (b + 1) (length m)]) = 20"
    if "\<exists>y0. year = map (\<lambda>i. y0 + int i) [0..<length year]" "length year \<le> length m"
  proof -
    from that(1) obtain y0 where y: "year = map (\<lambda>i. y0 + int i) [0..<length year]" by blast
    have "year ! a = y0 + int a"
      using a(2) by (subst y) simp
    moreover have "year ! b = y0 + int b"
      using b(2) by (subst y) simp
    ultimately have "b = a + 19"
      using a(3) b(3) period_ends [OF assms(1)] by simp
    moreover from this b(2) that(2) have "min (b + 1) (length m) = a + 20" by simp
    ultimately show ?thesis by simp
  qed
  show ?thesis
  proof (rule exI [of _ a], rule exI [of _ b], intro conjI)
    show "(\<exists>y0. year = map (\<lambda>i. y0 + int i) [0..<length year]) \<and> length year \<le> length m \<longrightarrow>
              b = a + 19 \<and> length (map (\<lambda>i. m ! i) [a..<min (b + 1) (length m)]) = 20"
      by (intro impI, elim conjE) (rule twenty)
  qed (use a b stats in simp_all)
qed

lemma std_replicate: "0 < n \<Longrightarrow> std (replicate n c) = 0"
  by (simp add: std_def mean_replicate)

lemma np_std_replicate: "0 < n \<Longrightarrow> np_std (replicate n (Fin c)) = Fin 0"
  by (auto simp add: np_std_def fin_vals_replicate std_replicate)

lemma nth_replicate_range:
  "b \<le> n \<Longrightarrow> map (\<lambda>i. replicate n c ! i) [a..<b] = replicate (b - a) c"
  by (rule nth_equalityI) simp_all

lemma example_year_nth: "i < 101 \<Longrightarrow> example_year ! i = 2000 + int i"
  by (simp add: example_year_def del: upt_Suc)

lemma example_year_length: "length example_year = 101"
  by (simp add: example_year_def del: upt_Suc)

lemma example_year_mem: "i < 101 \<Longrightarrow> 2000 + int i \<in> set example_year"
  by (simp add: example_year_def del: upt_Suc)

theorem period_average_witness:
  "period_stats example_results example_year ''ssp245'' (2001, 2020) = Inr (Fin 5, Fin 0)"
proof -
  have h1: "(2001, 2020) \<in> set periods" by (simp add: periods_def)
  have h2: "fst (2001 :: int, 2020 :: int) \<in> set example_year"
    using example_year_mem [of 1] by simp
  have h3: "snd (2001 :: int, 2020 :: int) \<in> set example_year"
    using example_year_mem [of 20] by simp
  have h4: "map_of example_results ''ssp245'' = Some [(''mean_runoff'', replicate 101 (Fin 5))]"
    by (simp add: example_results_def)
  have h5: "map_of [(''mean_runoff'', replicate 101 (Fin 5))] ''mean_runoff''
              = Some (replicate 101 (Fin 5))"
    by simp
  let ?m = "replicate 101 (Fin 5)"
  from period_average [OF h1 h2 h3 h4 h5] obtain a b where
    a: "a < length example_year" "example_year ! a = fst (2001 :: int, 2020 :: int)"
    and stats: "period_stats example_results example_year ''ssp245'' (2001, 2020) =
             Inr (np_mean (map (\<lambda>i. ?m ! i) [a..<min (b + 1) (length ?m)]),
                  np_std (map (\<lambda>i. ?m ! i) [a..<min (b + 1) (length ?m)]))"
    and cons: "(\<exists>y0. example_year = map (\<lambda>i. y0 + int i) [0..<length example_year]) \<and>
                length example_year \<le> length ?m \<longrightarrow>
              b = a + 19 \<and> length (map (\<lambda>i. ?m ! i) [a..<min (b + 1) (length ?m)]) = 20"
    by (elim exE conjE) (rule that)
  from a have "a = 1"
    by (simp add: example_year_length example_year_nth)
  moreover have "\<exists>y0. example_year = map (\<lambda>i. y0 + int i) [0..<length example_year]"
    by (rule exI [of _ 2000]) (simp add: example_year_def del: upt_Suc)
  then have "b = a + 19"
    using cons by (simp add: example_year_length)
  ultimately have "map (\<lambda>i. ?m ! i) [a..<min (b + 1) (length ?m)] = replicate 20 (Fin 5)"
    by (simp add: nth_replicate_range del: upt_Suc)
  with stats show ?thesis
    by (simp add: np_mean_replicate np_std_replicate)
qed

subsection \<open>The annual runoff\<close>

lemma np_vstack_Inr: "np_vstack rows = Inr s \<Longrightarrow> s = rows \<and> rows \<noteq> []"
  by (auto simp add: np_vstack_def split: if_splits)

lemma map_raise_and_then_Inr:
  "map_raise (\<lambda>f. and_then (opn f) g) fns = Inr rows \<Longrightarrow>
     \<exists>dss. map_raise opn fns = Inr dss \<and> map_raise g dss = Inr rows"
proof (induction fns arbitrary: rows)
  case Nil
  then show ?case by simp
next
  case (Cons f fns)
  then show ?case
    by (cases "opn f") (auto split: sum.splits)
qed

lemma map_raise_nth:
  "map_raise g xs = Inr ys \<Longrightarrow> i < length xs \<Longrightarrow> g (xs ! i) = Inr (ys ! i)"
proof (induction xs arbitrary: ys i)
  case Nil
  then show ?case by simp
next
  case (Cons x xs)
  then show ?case
    by (cases i) (auto split: sum.splits)
qed


lemma takeWhile_sorted:
  "sorted (map k xs) \<Longrightarrow> takeWhile (\<lambda>e. k e \<le> (y :: int)) xs = filter (\<lambda>e. k e \<le> y) xs"
  by (induction xs) (auto simp add: empty_filter_conv)

lemma dropWhile_sorted:
  "sorted (map k xs) \<Longrightarrow> dropWhile (\<lambda>e. k e \<le> (y :: int)) xs = filter (\<lambda>e. \<not> k e \<le> y) xs"
proof (induction xs)
  case Nil
  then show ?case by simp
next
  case (Cons x xs)
  show ?case
  proof (cases "k x \<le> y")
    case True
    with Cons show ?thesis by simp
  next
    case False
    with Cons.prems have "\<forall>e \<in> set xs. \<not> k e \<le> y" by auto
    then have "filter (\<lambda>e. \<not> k e \<le> y) xs = xs" by (simp add: filter_id_conv)
    with False show ?thesis by simp
  qed
qed

lemma year_bins_length: "length (year_bins y n da) = n"
  by (induction n arbitrary: y da) (simp_all add: Let_def)

lemma year_bins_nth:
  assumes "sorted (map (\<lambda>e. fst (fst e)) da)" and "\<forall>e \<in> set da. y \<le> fst (fst e)" and "j < n"
  shows "year_bins y n da ! j =
           (if year_values (y + int j) da = [] then NaN
            else Fin (sum_list (year_values (y + int j) da)))"
  using assms
proof (induction n arbitrary: y da j)
  case 0
  then show ?case by simp
next
  case (Suc n)
  let ?k = "\<lambda>e :: (int \<times> nat) \<times> real. fst (fst e)"
  have tw: "takeWhile (\<lambda>e. ?k e \<le> y) da = filter (\<lambda>e. ?k e = y) da"
    unfolding takeWhile_sorted [of ?k, OF Suc.prems(1)]
    by (rule filter_cong) (use Suc.prems(2) in auto)
  have dw: "dropWhile (\<lambda>e. ?k e \<le> y) da = filter (\<lambda>e. \<not> ?k e \<le> y) da"
    by (rule dropWhile_sorted [of ?k, OF Suc.prems(1)])
  show ?case
  proof (cases j)
    case 0
    then show ?thesis
      by (simp add: Let_def tw year_values_def)
  next
    case (Suc i)
    let ?rest = "filter (\<lambda>e. \<not> ?k e \<le> y) da"
    have s: "sorted (map ?k ?rest)"
      using Suc.prems(1) by (rule sorted_filter)
    have lo: "\<forall>e \<in> set ?rest. y + 1 \<le> ?k e" by auto
    have i: "i < n" using Suc.prems(3) Suc by simp
    have "filter (\<lambda>e. ?k e = y + 1 + int i) ?rest = filter (\<lambda>e. ?k e = y + 1 + int i) da"
      unfolding filter_filter by (rule filter_cong) auto
    then have yv: "year_values (y + 1 + int i) ?rest = year_values (y + 1 + int i) da"
      unfolding year_values_def by (rule arg_cong)
    have "year_bins y (Suc n) da ! j = year_bins (y + 1) n ?rest ! i"
      using Suc by (simp add: Let_def dw)
    also note Suc.IH [OF s lo i]
    also note yv
    also have "y + 1 + int i = y + int j"
      using Suc by simp
    finally show ?thesis .
  qed
qed

lemma scenario_stats_runoff:
  assumes "scenario_stats resample_sum open_dataset fns year = Inr (d, year')"
  shows "\<exists>annual_runoff.
           map_raise (\<lambda>f. and_then (open_dataset f)
                             (\<lambda>ds. resample_sum (glac_runoff_monthly ds))) fns = Inr annual_runoff \<and>
           annual_runoff \<noteq> [] \<and>
           map_of d ''mean_runoff'' = Some (np_nanmean annual_runoff) \<and>
           map_of d ''std_runoff'' = Some (np_nanstd annual_runoff) \<and>
           map_of d ''min_runoff'' = Some (np_nanmin annual_runoff) \<and>
           map_of d ''max_runoff'' = Some (np_nanmax annual_runoff)"
proof -
  from assms obtain annual_runoff stacked_runoff r5 r6 r7 r8 r9 r10 r11 r12 where
    a: "map_raise (\<lambda>f. and_then (open_dataset f)
                             (\<lambda>ds. resample_sum (glac_runoff_monthly ds))) fns = Inr annual_runoff"
    and v: "np_vstack annual_runoff = Inr stacked_runoff"
    and d: "d = AList.update ''max_mass'' r12 (AList.update ''min_mass'' r11
                (AList.update ''mean_mass'' r10 (AList.update ''std_mass'' r9
                (AList.update ''max_area'' r8 (AList.update ''min_area'' r7
                (AList.update ''std_area'' r6 (AList.update ''mean_area'' r5
                (AList.update ''max_runoff'' (np_nanmax stacked_runoff)
                (AList.update ''min_runoff'' (np_nanmin stacked_runoff)
                (AList.update ''std_runoff'' (np_nanstd stacked_runoff)
                (AList.update ''mean_runoff'' (np_nanmean stacked_runoff) [])))))))))))"
    unfolding scenario_stats_def Let_def and_then_Inr_iff sum.inject prod.inject
    apply (elim exE conjE)
    apply (rule that)
      apply assumption
     apply assumption
    apply (erule sym)
    done
  from np_vstack_Inr [OF v] have s: "stacked_runoff = annual_runoff" "annual_runoff \<noteq> []"
    by simp_all
  from d s(1) have
    "map_of d ''mean_runoff'' = Some (np_nanmean annual_runoff)"
    "map_of d ''std_runoff'' = Some (np_nanstd annual_runoff)"
    "map_of d ''min_runoff'' = Some (np_nanmin annual_runoff)"
    "map_of d ''max_runoff'' = Some (np_nanmax annual_runoff)"
    by (simp_all add: update_conv')
  with a s(2) show ?thesis by blast
qed



lemma year_sorted:
  assumes "sorted_wrt time_le (map fst da)"
  shows "sorted (map (\<lambda>e. fst (fst e)) da)"
proof -
  from assms have "sorted_wrt (\<lambda>a b. time_le (fst a) (fst b)) da"
    by (simp add: sorted_wrt_map)
  then have "sorted_wrt (\<lambda>a b. fst (fst a) \<le> fst (fst b)) da"
    by (rule sorted_wrt_mono_rel [rotated]) (auto simp add: time_le_def)
  then show ?thesis
    by (simp add: sorted_map)
qed

lemma first_year_least:
  assumes "sorted (map (\<lambda>e. fst (fst e)) da)"
  shows "\<forall>e \<in> set da. first_year da \<le> fst (fst e)"
  using assms by (cases da) (auto simp add: first_year_def)

lemma monthly_no_gap:
  "monthly ts \<Longrightarrow> ts \<noteq> [] \<Longrightarrow> fst (hd ts) \<le> y \<Longrightarrow> y \<le> fst (last ts) \<Longrightarrow> \<exists>t \<in> set ts. fst t = y"
proof (induction ts rule: monthly.induct)
  case 1
  then show ?case by simp
next
  case (2 t)
  then show ?case by simp
next
  case (3 s t ts)
  show ?case
  proof (cases "y = fst s")
    case True
    then show ?thesis by simp
  next
    case False
    have "monthly (s # t # ts) = (t = next_month s \<and> monthly (t # ts))"
      by (rule monthly.simps(3))
    with "3.prems"(1) have m: "t = next_month s" "monthly (t # ts)"
      by blast+
    have l: "y \<le> fst (last (t # ts))"
      using "3.prems"(4) by simp
    have f: "fst (hd (t # ts)) \<le> y"
      using m(1) "3.prems"(3) False by (simp add: next_month_def split: if_splits)
    have "\<exists>u \<in> set (t # ts). fst u = y"
      by (rule "3.IH" [OF m(2) _ f l]) simp
    then show ?thesis by auto
  qed
qed

lemma monthly_year_values:
  assumes "monthly (map fst da)" "da \<noteq> []" "first_year da \<le> y" "y \<le> last_year da"
  shows "year_values y da \<noteq> []"
proof -
  from monthly_no_gap [OF assms(1), of y] assms(2-4)
  have "\<exists>t \<in> set (map fst da). fst t = y"
    by (simp add: first_year_def last_year_def hd_map last_map)
  then show ?thesis
    by (auto simp add: year_values_def filter_empty_conv)
qed

lemma xr_resample_Inr:
  assumes "xr_resample_YE_sum da = Inr r"
  shows "da \<noteq> []" and "sorted_wrt time_le (map fst da)"
    and "length r = nat (last_year da - first_year da + 1)"
    and "j < length r \<Longrightarrow>
           r ! j = (if year_values (first_year da + int j) da = [] then NaN
                    else Fin (sum_list (year_values (first_year da + int j) da)))"
    and "monthly (map fst da) \<Longrightarrow> j < length r \<Longrightarrow>
           r ! j = Fin (sum_list (year_values (first_year da + int j) da))"
proof -
  from assms show ne: "da \<noteq> []" and s: "sorted_wrt time_le (map fst da)"
    by (auto simp add: xr_resample_YE_sum_def split: if_splits)
  from assms ne s have r: "r = year_bins (first_year da) (nat (last_year da - first_year da + 1)) da"
    by (simp add: xr_resample_YE_sum_def)
  show len: "length r = nat (last_year da - first_year da + 1)"
    by (simp add: r year_bins_length)
  show nth: "r ! j = (if year_values (first_year da + int j) da = [] then NaN
                    else Fin (sum_list (year_values (first_year da + int j) da)))"
    if "j < length r"
    unfolding r
    by (rule year_bins_nth [OF year_sorted [OF s] first_year_least [OF year_sorted [OF s]]])
      (use that len in simp)
  show "r ! j = Fin (sum_list (year_values (first_year da + int j) da))"
    if "monthly (map fst da)" "j < length r"
  proof -
    from that(2) len have "first_year da + int j \<le> last_year da" by simp
    with monthly_year_values [OF that(1) ne, of "first_year da + int j"]
    have "year_values (first_year da + int j) da \<noteq> []" by simp
    with nth [OF that(2)] show ?thesis by simp
  qed
qed

lemma time_le_trans: "time_le a b \<Longrightarrow> time_le b c \<Longrightarrow> time_le a c"
  by (auto simp add: time_le_def)

lemma monthly_sorted: "monthly ts \<Longrightarrow> sorted_wrt time_le ts"
proof (induction ts rule: monthly.induct)
  case 1
  then show ?case by simp
next
  case (2 t)
  then show ?case by simp
next
  case (3 s t ts)
  have "monthly (s # t # ts) = (t = next_month s \<and> monthly (t # ts))"
    by (rule monthly.simps(3))
  with "3.prems" have m: "t = next_month s" "monthly (t # ts)"
    by blast+
  from "3.IH" [OF m(2)] have s: "sorted_wrt time_le (t # ts)" .
  have st: "time_le s t"
    unfolding m(1) by (simp add: time_le_def next_month_def)
  have "time_le s x" if "x \<in> set ts" for x
  proof -
    from s that have "time_le t x" by simp
    with st show ?thesis by (rule time_le_trans)
  qed
  with st s show ?case by simp
qed

lemma xr_resample_monthly:
  assumes "da \<noteq> []" "monthly (map fst da)"
  shows "\<exists>r. xr_resample_YE_sum da = Inr r"
  using assms by (simp add: xr_resample_YE_sum_def monthly_sorted)

lemma example_resampled:
  "xr_resample_YE_sum [((2000, 11), 1), ((2000, 12), 2), ((2001, 1), 4)] = Inr [Fin 3, Fin 4]"
  "xr_resample_YE_sum [((2000, 12), 5), ((2001, 1), 6), ((2001, 2), 1)] = Inr [Fin 5, Fin 7]"
  "xr_resample_YE_sum [((2000, 11), 1), ((2000, 12), 2), ((2001, Suc 0), 4)] = Inr [Fin 3, Fin 4]"
  "xr_resample_YE_sum [((2000, 12), 5), ((2001, Suc 0), 6), ((2001, 2), 1)] = Inr [Fin 5, Fin 7]"
  by (simp_all add: xr_resample_YE_sum_def time_le_def first_year_def last_year_def
        numeral_2_eq_2 Let_def)

lemma xr_resample_refuses:
  "xr_resample_YE_sum [] = Inl ValueError"
  "xr_resample_YE_sum [((2001, 2), 1), ((2000, 12), 5)] = Inl ValueError"
  by (simp_all add: xr_resample_YE_sum_def time_le_def)

lemma xr_resample_gap:
  "xr_resample_YE_sum [((2000, 12), 1), ((2002, 3), 4)] = Inr [Fin 1, NaN, Fin 4]"
  by (simp add: xr_resample_YE_sum_def time_le_def first_year_def last_year_def
        numeral_3_eq_3 Let_def)

text \<open>
  Claim C8. When the body of the scenario loop returns, every GCM output file has opened
  and its monthly runoff has been resampled, and the four runoff entries of the scenario
  are the NaN-ignoring reductions of the list \<^verbatim>\<open>annual_runoff\<close>, which holds the resampled
  series of the files, one for each file. The series of a file has one entry for every
  calendar year from the year of the first monthly value to the year of the last. The
  entry of a year is the sum of the monthly values of that year; the library gives NaN
  for a year in between that has no value, which does not occur in a monthly series
  (every time the month after the one before): there every entry is the sum of that
  year's monthly values.
\<close>

theorem annual_runoff_by_calendar_year:
  assumes "scenario_stats xr_resample_YE_sum open_dataset fns year = Inr (d, year')"
  shows "\<exists>dss annual_runoff.
           map_raise open_dataset fns = Inr dss \<and> dss \<noteq> [] \<and>
           length annual_runoff = length dss \<and>
           map_of d ''mean_runoff'' = Some (np_nanmean annual_runoff) \<and>
           map_of d ''std_runoff'' = Some (np_nanstd annual_runoff) \<and>
           map_of d ''min_runoff'' = Some (np_nanmin annual_runoff) \<and>
           map_of d ''max_runoff'' = Some (np_nanmax annual_runoff) \<and>
           (\<forall>i<length dss.
              xr_resample_YE_sum (glac_runoff_monthly (dss ! i)) = Inr (annual_runoff ! i) \<and>
              glac_runoff_monthly (dss ! i) \<noteq> [] \<and>
              length (annual_runoff ! i) =
                nat (last_year (glac_runoff_monthly (dss ! i))
                     - first_year (glac_runoff_monthly (dss ! i)) + 1) \<and>
              (\<forall>j<length (annual_runoff ! i).
                 annual_runoff ! i ! j =
                   (if year_values (first_year (glac_runoff_monthly (dss ! i)) + int j)
                         (glac_runoff_monthly (dss ! i)) = []
                    then NaN
                    else Fin (sum_list (year_values
                                (first_year (glac_runoff_monthly (dss ! i)) + int j)
                                (glac_runoff_monthly (dss ! i)))))) \<and>
              (monthly (map fst (glac_runoff_monthly (dss ! i))) \<longrightarrow>
                 (\<forall>j<length (annual_runoff ! i).
                    annual_runoff ! i ! j =
                      Fin (sum_list (year_values
                             (first_year (glac_runoff_monthly (dss ! i)) + int j)
                             (glac_runoff_monthly (dss ! i)))))))"
proof -
  from scenario_stats_runoff [OF assms] obtain annual_runoff where
    run: "map_raise (\<lambda>f. and_then (open_dataset f)
                       (\<lambda>ds. xr_resample_YE_sum (glac_runoff_monthly ds))) fns = Inr annual_runoff"
    and ne: "annual_runoff \<noteq> []"
    and d: "map_of d ''mean_runoff'' = Some (np_nanmean annual_runoff)"
      "map_of d ''std_runoff'' = Some (np_nanstd annual_runoff)"
      "map_of d ''min_runoff'' = Some (np_nanmin annual_runoff)"
      "map_of d ''max_runoff'' = Some (np_nanmax annual_runoff)"
    by (elim exE conjE) (rule that)
  from map_raise_and_then_Inr [OF run] obtain dss where
    dss: "map_raise open_dataset fns = Inr dss"
    and rows: "map_raise (\<lambda>ds. xr_resample_YE_sum (glac_runoff_monthly ds)) dss = Inr annual_runoff"
    by (elim exE conjE) (rule that)
  have len: "length annual_runoff = length dss"
    by (rule map_raise_length [OF rows])
  with ne have dne: "dss \<noteq> []" by auto
  have each: "xr_resample_YE_sum (glac_runoff_monthly (dss ! i)) = Inr (annual_runoff ! i) \<and>
              glac_runoff_monthly (dss ! i) \<noteq> [] \<and>
              length (annual_runoff ! i) =
                nat (last_year (glac_runoff_monthly (dss ! i))
                     - first_year (glac_runoff_monthly (dss ! i)) + 1) \<and>
              (\<forall>j<length (annual_runoff ! i).
                 annual_runoff ! i ! j =
                   (if year_values (first_year (glac_runoff_monthly (dss ! i)) + int j)
                         (glac_runoff_monthly (dss ! i)) = []
                    then NaN
                    else Fin (sum_list (year_values
                                (first_year (glac_runoff_monthly (dss ! i)) + int j)
                                (glac_runoff_monthly (dss ! i)))))) \<and>
              (monthly (map fst (glac_runoff_monthly (dss ! i))) \<longrightarrow>
                 (\<forall>j<length (annual_runoff ! i).
                    annual_runoff ! i ! j =
                      Fin (sum_list (year_values
                             (first_year (glac_runoff_monthly (dss ! i)) + int j)
                             (glac_runoff_monthly (dss ! i))))))"
    if "i < length dss" for i
  proof -
    have r: "xr_resample_YE_sum (glac_runoff_monthly (dss ! i)) = Inr (annual_runoff ! i)"
      by (rule map_raise_nth [OF rows that])
    show ?thesis
    proof (intro conjI allI impI)
      show "xr_resample_YE_sum (glac_runoff_monthly (dss ! i)) = Inr (annual_runoff ! i)"
        by (rule r)
    next
      show "glac_runoff_monthly (dss ! i) \<noteq> []"
        by (rule xr_resample_Inr(1) [OF r])
    next
      show "length (annual_runoff ! i) =
                nat (last_year (glac_runoff_monthly (dss ! i))
                     - first_year (glac_runoff_monthly (dss ! i)) + 1)"
        by (rule xr_resample_Inr(3) [OF r])
    next
      fix j
      assume "j < length (annual_runoff ! i)"
      then show "annual_runoff ! i ! j =
                   (if year_values (first_year (glac_runoff_monthly (dss ! i)) + int j)
                         (glac_runoff_monthly (dss ! i)) = []
                    then NaN
                    else Fin (sum_list (year_values
                                (first_year (glac_runoff_monthly (dss ! i)) + int j)
                                (glac_runoff_monthly (dss ! i)))))"
        by (rule xr_resample_Inr(4) [OF r])
    next
      fix j
      assume "monthly (map fst (glac_runoff_monthly (dss ! i)))" "j < length (annual_runoff ! i)"
      then show "annual_runoff ! i ! j =
                      Fin (sum_list (year_values
                             (first_year (glac_runoff_monthly (dss ! i)) + int j)
                             (glac_runoff_monthly (dss ! i))))"
        by (rule xr_resample_Inr(5) [OF r])
    qed
  qed
  show ?thesis
  proof (rule exI [of _ dss], rule exI [of _ annual_runoff], intro conjI)
    show "\<forall>i<length dss.
              xr_resample_YE_sum (glac_runoff_monthly (dss ! i)) = Inr (annual_runoff ! i) \<and>
              glac_runoff_monthly (dss ! i) \<noteq> [] \<and>
              length (annual_runoff ! i) =
                nat (last_year (glac_runoff_monthly (dss ! i))
                     - first_year (glac_runoff_monthly (dss ! i)) + 1) \<and>
              (\<forall>j<length (annual_runoff ! i).
                 annual_runoff ! i ! j =
                   (if year_values (first_year (glac_runoff_monthly (dss ! i)) + int j)
                         (glac_runoff_monthly (dss ! i)) = []
                    then NaN
                    else Fin (sum_list (year_values
                                (first_year (glac_runoff_monthly (dss ! i)) + int j)
                                (glac_runoff_monthly (dss ! i)))))) \<and>
              (monthly (map fst (glac_runoff_monthly (dss ! i))) \<longrightarrow>
                 (\<forall>j<length (annual_runoff ! i).
                    annual_runoff ! i ! j =
                      Fin (sum_list (year_values
                             (first_year (glac_runoff_monthly (dss ! i)) + int j)
                             (glac_runoff_monthly (dss ! i))))))"
      by (intro allI impI) (rule each)
  qed (use dss dne len d in simp_all)
qed



theorem annual_runoff_by_calendar_year_witness:
  "\<exists>d. scenario_stats xr_resample_YE_sum example_open_monthly [''gcm_a'', ''gcm_b''] None
          = Inr (d, Some [2000, 2001]) \<and>
       map_of d ''mean_runoff'' = Some [Fin 4, Fin (11 / 2)]"
proof -
  let ?a = "\<lparr>glac_runoff_monthly = [((2000 :: int, 11 :: nat), 1 :: real), ((2000, 12), 2), ((2001, 1), 4)],
             glac_area_annual = [Fin 9, Fin 4, Fin 2],
             glac_mass_annual = [Fin 8, Fin 6, Fin 5], year_coord = [2000, 2001, 2002]\<rparr>"
  let ?b = "\<lparr>glac_runoff_monthly = [((2000 :: int, 12 :: nat), 5 :: real), ((2001, 1), 6), ((2001, 2), 1)],
             glac_area_annual = [Fin 9, Fin 6, Fin 4],
             glac_mass_annual = [Fin 8, Fin 2, Fin 1], year_coord = [2000, 2001, 2002]\<rparr>"
  have h1: "[''gcm_a'', ''gcm_b''] \<noteq> []" by simp
  have h2: "map_raise example_open_monthly [''gcm_a'', ''gcm_b''] = Inr [?a, ?b]"
    by (simp add: example_open_monthly_def)
  have h3: "map_raise (\<lambda>ds. xr_resample_YE_sum (glac_runoff_monthly ds)) [?a, ?b]
              = Inr [[Fin 3, Fin 4], [Fin 5, Fin 7]]"
    by (simp add: example_resampled)
  have h4: "list_all (\<lambda>r. length r = 2) [[Fin 3, Fin 4], [Fin 5, Fin 7]]" by simp
  have h5: "list_all (\<lambda>ds. length (drop 1 (glac_area_annual ds)) = 2) [?a, ?b]" by simp
  have h6: "list_all (\<lambda>ds. length (drop 1 (glac_mass_annual ds)) = 2) [?a, ?b]" by simp
  have two: "[0..<2] = [0, 1]" by (simp add: upt_rec)
  have "\<exists>d. scenario_stats xr_resample_YE_sum example_open_monthly [''gcm_a'', ''gcm_b''] None
          = Inr (d, Some [2000, 2001])"
    by (simp add: scenario_stats_closed [OF h1 h2 h3 h4 h5 h6])
  then obtain d where
    run: "scenario_stats xr_resample_YE_sum example_open_monthly [''gcm_a'', ''gcm_b''] None
            = Inr (d, Some [2000, 2001])" ..
  from annual_runoff_by_calendar_year [OF run] obtain dss annual_runoff where
    dss: "map_raise example_open_monthly [''gcm_a'', ''gcm_b''] = Inr dss"
    and len: "length annual_runoff = length dss"
    and mean: "map_of d ''mean_runoff'' = Some (np_nanmean annual_runoff)"
    and rows: "\<forall>i<length dss.
              xr_resample_YE_sum (glac_runoff_monthly (dss ! i)) = Inr (annual_runoff ! i) \<and>
              glac_runoff_monthly (dss ! i) \<noteq> [] \<and>
              length (annual_runoff ! i) =
                nat (last_year (glac_runoff_monthly (dss ! i))
                     - first_year (glac_runoff_monthly (dss ! i)) + 1) \<and>
              (\<forall>j<length (annual_runoff ! i).
                 annual_runoff ! i ! j =
                   (if year_values (first_year (glac_runoff_monthly (dss ! i)) + int j)
                         (glac_runoff_monthly (dss ! i)) = []
                    then NaN
                    else Fin (sum_list (year_values
                                (first_year (glac_runoff_monthly (dss ! i)) + int j)
                                (glac_runoff_monthly (dss ! i)))))) \<and>
              (monthly (map fst (glac_runoff_monthly (dss ! i))) \<longrightarrow>
                 (\<forall>j<length (annual_runoff ! i).
                    annual_runoff ! i ! j =
                      Fin (sum_list (year_values
                             (first_year (glac_runoff_monthly (dss ! i)) + int j)
                             (glac_runoff_monthly (dss ! i))))))"
    by (elim exE conjE) (rule that)
  from dss h2 have d2: "dss = [?a, ?b]" by simp
  from rows [rule_format, of 0] have r0: "annual_runoff ! 0 = [Fin 3, Fin 4]"
    by (simp add: d2 example_resampled)
  from rows [rule_format, of 1] have r1: "annual_runoff ! 1 = [Fin 5, Fin 7]"
    by (simp add: d2 example_resampled)
  from len have "length annual_runoff = 2" by (simp add: d2)
  with r0 r1 have "annual_runoff = [[Fin 3, Fin 4], [Fin 5, Fin 7]]"
    by (cases annual_runoff; cases "tl annual_runoff") auto
  then have "np_nanmean annual_runoff = [Fin 4, Fin (11 / 2)]"
    by (simp add: np_nanmean_def axis0_def two column_def nanmean1_def mean_def)
  with run mean show ?thesis by simp
qed

subsection \<open>The two MCMC notebooks\<close>

lemma fold_py_min:
  "fold (\<lambda>item min_item. if flt item min_item then item else min_item) (map Fin rs) (Fin a)
     = Fin (fold min rs a)"
proof (induction rs arbitrary: a)
  case Nil
  show ?case by simp
next
  case (Cons r rs)
  have "(if r < a then r else a) = min r a" by (simp add: min_def)
  with Cons show ?case by (simp del: fold_simps add: fold_Cons)
qed

lemma fold_py_max:
  "fold (\<lambda>item max_item. if flt max_item item then item else max_item) (map Fin rs) (Fin a)
     = Fin (fold max rs a)"
proof (induction rs arbitrary: a)
  case Nil
  show ?case by simp
next
  case (Cons r rs)
  have "(if a < r then r else a) = max r a" by (auto simp add: max_def)
  with Cons show ?case by simp
qed

lemma fin_vals_map_Fin: "fin_vals (map Fin rs) = rs"
  by (induction rs) simp_all

lemma np_min_map_Fin: "rs \<noteq> [] \<Longrightarrow> np_min (map Fin rs) = Inr (Fin (Min (set rs)))"
  by (auto simp add: np_min_def fin_vals_map_Fin)

lemma np_max_map_Fin: "rs \<noteq> [] \<Longrightarrow> np_max (map Fin rs) = Inr (Fin (Max (set rs)))"
  by (auto simp add: np_max_def fin_vals_map_Fin)

lemma py_min_finite:
  assumes "x \<noteq> []" "NaN \<notin> set x"
  shows "py_min x = np_min x"
proof -
  from assms(2) have x: "x = map Fin (fin_vals x)" by (simp add: fin_vals_no_nan)
  from assms(1) x obtain r rs where rs: "fin_vals x = r # rs" by (cases "fin_vals x") auto
  have "py_min (map Fin (r # rs)) = Inr (Fin (Min (set (r # rs))))"
    by (simp add: py_min_def fold_py_min Min.set_eq_fold del: set_simps)
  moreover have "np_min x = Inr (Fin (Min (set (r # rs))))"
    using assms rs by (simp add: np_min_def)
  ultimately show ?thesis using x rs by simp
qed

lemma py_max_finite:
  assumes "x \<noteq> []" "NaN \<notin> set x"
  shows "py_max x = np_max x"
proof -
  from assms(2) have x: "x = map Fin (fin_vals x)" by (simp add: fin_vals_no_nan)
  from assms(1) x obtain r rs where rs: "fin_vals x = r # rs" by (cases "fin_vals x") auto
  have "py_max (map Fin (r # rs)) = Inr (Fin (Max (set (r # rs))))"
    by (simp add: py_max_def fold_py_max Max.set_eq_fold del: set_simps)
  moreover have "np_max x = Inr (Fin (Max (set (r # rs))))"
    using assms rs by (simp add: np_max_def)
  ultimately show ?thesis using x rs by simp
qed

lemma scaled_finite:
  assumes "NaN \<notin> set x"
  shows "map (\<lambda>v. fmul v (Fin c)) x = map Fin (map (\<lambda>r. r * c) (fin_vals x))"
  using assms by (induction x rule: fin_vals.induct) simp_all

lemma py_min_scaled:
  assumes "np_min x = Inr mn" "NaN \<notin> set x"
  shows "py_min (map (\<lambda>v. fmul v (Fin 1000)) x) = Inr (fmul mn (Fin 1000))"
proof -
  from assms(1) have ne: "x \<noteq> []" by (auto simp add: np_min_def)
  let ?rs = "fin_vals x"
  have rs: "?rs \<noteq> []" using ne assms(2) length_fin_vals [of x] by auto
  have mn: "mn = Fin (Min (set ?rs))"
    using assms ne by (simp add: np_min_def)
  have "py_min (map (\<lambda>v. fmul v (Fin 1000)) x) = np_min (map Fin (map (\<lambda>r. r * 1000) ?rs))"
    unfolding scaled_finite [OF assms(2)] using rs by (intro py_min_finite) auto
  also have "\<dots> = Inr (Fin (Min (set (map (\<lambda>r. r * 1000) ?rs))))"
    using rs by (intro np_min_map_Fin) simp
  also have "Min (set (map (\<lambda>r. r * 1000) ?rs)) = Min (set ?rs) * 1000"
    using rs by (simp add: mono_Min_commute [of "\<lambda>r::real. r * 1000", symmetric] mono_def)
  finally show ?thesis by (simp add: mn)
qed

lemma py_max_scaled:
  assumes "np_max x = Inr mx" "NaN \<notin> set x"
  shows "py_max (map (\<lambda>v. fmul v (Fin 1000)) x) = Inr (fmul mx (Fin 1000))"
proof -
  from assms(1) have ne: "x \<noteq> []" by (auto simp add: np_max_def)
  let ?rs = "fin_vals x"
  have rs: "?rs \<noteq> []" using ne assms(2) length_fin_vals [of x] by auto
  have mx: "mx = Fin (Max (set ?rs))"
    using assms ne by (simp add: np_max_def)
  have "py_max (map (\<lambda>v. fmul v (Fin 1000)) x) = np_max (map Fin (map (\<lambda>r. r * 1000) ?rs))"
    unfolding scaled_finite [OF assms(2)] using rs by (intro py_max_finite) auto
  also have "\<dots> = Inr (Fin (Max (set (map (\<lambda>r. r * 1000) ?rs))))"
    using rs by (intro np_max_map_Fin) simp
  also have "Max (set (map (\<lambda>r. r * 1000) ?rs)) = Max (set ?rs) * 1000"
    using rs by (simp add: mono_Max_commute [of "\<lambda>r::real. r * 1000", symmetric] mono_def)
  finally show ?thesis by (simp add: mx)
qed

lemma posterior_range:
  assumes "posterior pl p k scaled = Inr r"
    and "chain_samples p k ''chain_0'' = Inr x" "np_min x = Inr mn" "np_max x = Inr mx"
    and "NaN \<notin> set x"
  shows "r = (if scaled then (fmul mn (Fin 1000), fmul mx (Fin 1000)) else (mn, mx))"
proof -
  have ne: "x \<noteq> []" using assms(3) by (auto simp add: np_min_def)
  show ?thesis
  proof (cases scaled)
    case True
    with assms(1,2) show ?thesis
      by (auto simp add: posterior_def and_then_Inr_iff
            py_min_scaled [OF assms(3,5)] py_max_scaled [OF assms(4,5)])
  next
    case False
    with assms(1,2) show ?thesis
      by (auto simp add: posterior_def and_then_Inr_iff
            py_min_finite [OF ne assms(5)] py_max_finite [OF ne assms(5)] assms(3,4))
  qed
qed

lemma analyze_mcmc_Inr:
  assumes "analyze_mcmc pl p = Inr rs"
  shows "\<exists>r1 r2 r3 r4.
           posterior pl p ''mb_mwea'' False = Inr r1 \<and> posterior pl p ''kp'' False = Inr r2 \<and>
           posterior pl p ''tbias'' False = Inr r3 \<and> posterior pl p ''ddfsnow'' True = Inr r4 \<and>
           rs = [(''mb_mwea'', r1), (''kp'', r2), (''tbias'', r3), (''ddfsnow'', r4)]"
  using assms unfolding analyze_mcmc_def and_then_Inr_iff by blast

lemma single_chain_samples:
  "k \<in> set ks \<Longrightarrow> chain_samples single_prms k ''chain_0'' = Inr [Fin 1, Fin 3]"
  "k \<in> set ks \<Longrightarrow> chain_samples single_prms k ''chain_1'' = Inl (KeyError ''chain_1'')"
  by (auto simp add: chain_samples_def single_prms_def)

lemma single_var_stats: "var_stats example_lib single_prms ''kp'' = Inl (KeyError ''chain_1'')"
proof -
  have k: "''kp'' \<in> set ks" by (simp add: ks_def)
  obtain c where c: "stat_loop (stats example_lib) (Inr [Fin 1, Fin 3]) (enumerate 0 stats_ks) []
                       = Inr c"
    unfolding stat_loop_all by (simp add: example_lib_def np_min_def np_max_def)
  have "stat_loop (stats example_lib) (Inl (KeyError ''chain_1'')) (enumerate 0 stats_ks) []
          = Inl (KeyError ''chain_1'')"
    by (simp add: enumerate_stats_ks stats_def)
  with c have "chain_loop example_lib single_prms ''kp'' chain_ns [] = Inl (KeyError ''chain_1'')"
    by (simp add: chain_ns_def chain_key_simps single_chain_samples [OF k])
  then show ?thesis by (simp add: var_stats_def)
qed

text \<open>
  Claim C7 fails as stated: the routine is in one of the notebooks only, and the other
  one, \<^verbatim>\<open>analyze_mcmc.ipynb\<close>, does not compute what it computes. On a calibration with a
  single chain per variable the routine raises \<^verbatim>\<open>KeyError\<close> at \<^verbatim>\<open>chain_1\<close>, while
  \<^verbatim>\<open>analyze_mcmc.ipynb\<close> returns the four ranges of \<^verbatim>\<open>chain_0\<close>.
\<close>

theorem notebooks_differ_counterexample:
  "glac_stats example_lib single_prms = Inl (KeyError ''chain_1'') \<and>
   analyze_mcmc example_plot single_prms =
     Inr [(''mb_mwea'', (Fin 1, Fin 3)), (''kp'', (Fin 1, Fin 3)), (''tbias'', (Fin 1, Fin 3)),
          (''ddfsnow'', (Fin 1000, Fin 3000))]"
proof -
  have "glac_stats example_lib single_prms = Inl (KeyError ''chain_1'')"
    by (simp add: glac_stats_def ks_def single_var_stats)
  moreover have "posterior example_plot single_prms k False = Inr (Fin 1, Fin 3)"
    if "k \<in> set ks" for k
    using that by (simp add: posterior_def single_chain_samples example_plot_def py_min_def py_max_def)
  moreover have "posterior example_plot single_prms ''ddfsnow'' True = Inr (Fin 1000, Fin 3000)"
    by (simp add: posterior_def single_chain_samples ks_def example_plot_def py_min_def py_max_def)
  ultimately show ?thesis
    by (simp add: analyze_mcmc_def example_plot_def ks_def)
qed

text \<open>
  Claim C7, amended. Of the same \<^verbatim>\<open>'MCMC'\<close> entry \<^verbatim>\<open>analyze_mcmc.ipynb\<close> computes four
  ranges only, those of \<^verbatim>\<open>chain_0\<close> of \<^verbatim>\<open>mb_mwea\<close>, \<^verbatim>\<open>kp\<close>, \<^verbatim>\<open>tbias\<close> and
  \<^verbatim>\<open>ddfsnow\<close>. When it and the routine of the regional notebook both succeed, each of
  these chains is the one whose statistics the routine stores under \<^verbatim>\<open>'chain_0'\<close>, and
  when the chain holds no NaN the range is the stored \<^verbatim>\<open>'min'\<close> and \<^verbatim>\<open>'max'\<close> (times
  1000 for \<^verbatim>\<open>ddfsnow\<close>).
\<close>

theorem chain_range_shared:
  assumes "glac_stats l prms_dict = Inr gs" and "analyze_mcmc pl prms_dict = Inr rs"
    and "k \<in> set [''mb_mwea'', ''kp'', ''tbias'', ''ddfsnow'']"
  shows "map fst rs = [''mb_mwea'', ''kp'', ''tbias'', ''ddfsnow''] \<and>
    (\<exists>x d c mn mx.
       chain_samples prms_dict k ''chain_0'' = Inr x \<and>
       map_of gs k = Some (PyDict d) \<and> map_of d ''chain_0'' = Some (PyDict c) \<and>
       map_of c ''min'' = Some (PyFloat mn) \<and> map_of c ''max'' = Some (PyFloat mx) \<and>
       np_min x = Inr mn \<and> np_max x = Inr mx \<and>
       (NaN \<notin> set x \<longrightarrow>
          map_of rs k = Some (if k = ''ddfsnow'' then (fmul mn (Fin 1000), fmul mx (Fin 1000))
                              else (mn, mx))))"
proof -
  from analyze_mcmc_Inr [OF assms(2)] obtain r1 r2 r3 r4 where
    post: "posterior pl prms_dict ''mb_mwea'' False = Inr r1"
      "posterior pl prms_dict ''kp'' False = Inr r2"
      "posterior pl prms_dict ''tbias'' False = Inr r3"
      "posterior pl prms_dict ''ddfsnow'' True = Inr r4"
    and rs: "rs = [(''mb_mwea'', r1), (''kp'', r2), (''tbias'', r3), (''ddfsnow'', r4)]"
    by blast
  have k: "k \<in> set ks" using assms(3) by (auto simp add: ks_def)
  from glac_stats_var [OF assms(1) k] obtain d where
    d: "var_stats l prms_dict k = Inr d" "map_of gs k = Some (PyDict d)" by blast
  have n: "0 \<in> set chain_ns" by (simp add: chain_ns_def)
  from var_stats_chain [OF d(1) n] obtain x mn mx p75 p25 ne where
    x: "chain_samples prms_dict k ''chain_0'' = Inr x"
    and v: "np_min x = Inr mn" "np_max x = Inr mx"
    and c: "map_of d ''chain_0'' = Some (PyDict
             [(''min'', PyFloat mn), (''max'', PyFloat mx), (''median'', PyFloat (np_median x)),
              (''mean'', PyFloat (np_mean x)), (''std'', PyFloat (np_std x)),
              (''iqr'', PyFloat (fsub p75 p25)), (''n_eff'', PyFloat ne)])"
    by (auto simp add: chain_key_simps)
  have range: "map_of rs k = Some (if k = ''ddfsnow'' then (fmul mn (Fin 1000), fmul mx (Fin 1000))
                              else (mn, mx))"
    if nan: "NaN \<notin> set x"
  proof -
    from assms(3) consider "k = ''mb_mwea''" | "k = ''kp''" | "k = ''tbias''" | "k = ''ddfsnow''"
      by auto
    then show ?thesis
    proof cases
      case 1
      with posterior_range [OF post(1) _ v nan] x rs show ?thesis by simp
    next
      case 2
      with posterior_range [OF post(2) _ v nan] x rs show ?thesis by simp
    next
      case 3
      with posterior_range [OF post(3) _ v nan] x rs show ?thesis by simp
    next
      case 4
      with posterior_range [OF post(4) _ v nan] x rs show ?thesis by simp
    qed
  qed
  have "map fst rs = [''mb_mwea'', ''kp'', ''tbias'', ''ddfsnow'']"
    by (simp add: rs)
  moreover have "\<exists>x d c mn mx.
       chain_samples prms_dict k ''chain_0'' = Inr x \<and>
       map_of gs k = Some (PyDict d) \<and> map_of d ''chain_0'' = Some (PyDict c) \<and>
       map_of c ''min'' = Some (PyFloat mn) \<and> map_of c ''max'' = Some (PyFloat mx) \<and>
       np_min x = Inr mn \<and> np_max x = Inr mx \<and>
       (NaN \<notin> set x \<longrightarrow>
          map_of rs k = Some (if k = ''ddfsnow'' then (fmul mn (Fin 1000), fmul mx (Fin 1000))
                              else (mn, mx)))"
    using x d(2) c v range
    by (intro exI [of _ x] exI [of _ d] exI [of _ mn] exI [of _ mx]
          exI [of _ "[(''min'', PyFloat mn), (''max'', PyFloat mx),
              (''median'', PyFloat (np_median x)),
              (''mean'', PyFloat (np_mean x)), (''std'', PyFloat (np_std x)),
              (''iqr'', PyFloat (fsub p75 p25)), (''n_eff'', PyFloat ne)]"]) simp
  ultimately show ?thesis by (rule conjI)
qed

theorem chain_range_shared_witness:
  "\<exists>gs rs. glac_stats example_lib example_prms = Inr gs \<and>
     analyze_mcmc example_plot example_prms = Inr rs \<and>
     map_of rs ''ddfsnow'' = Some (Fin 1000, Fin 3000)"
proof -
  obtain gs where gs: "glac_stats example_lib example_prms = Inr gs"
    using example_glac_stats by blast
  have post: "\<exists>r. posterior example_plot example_prms k scaled = Inr r" if "k \<in> set ks" for k scaled
    using that
    by (simp add: posterior_def example_chain_samples example_plot_def py_min_def py_max_def)
  have "\<exists>rs. analyze_mcmc example_plot example_prms = Inr rs"
    using post [of "''mb_mwea''" False] post [of "''kp''" False] post [of "''tbias''" False]
      post [of "''ddfsnow''" True]
    by (auto simp add: analyze_mcmc_def example_plot_def ks_def)
  then obtain rs where rs: "analyze_mcmc example_plot example_prms = Inr rs" by blast
  have k: "''ddfsnow'' \<in> set [''mb_mwea'', ''kp'', ''tbias'', ''ddfsnow'']" by simp
  from chain_range_shared [OF gs rs k] obtain x mn mx where
    x: "chain_samples example_prms ''ddfsnow'' ''chain_0'' = Inr x"
    and v: "np_min x = Inr mn" "np_max x = Inr mx"
    and r: "NaN \<notin> set x \<longrightarrow>
          map_of rs ''ddfsnow'' = Some (fmul mn (Fin 1000), fmul mx (Fin 1000))"
    by auto
  from x have x': "x = [Fin 1, Fin 3]"
    by (simp add: example_chain_samples ks_def)
  from v have "mn = Fin 1" "mx = Fin 3"
    unfolding x' example_values by simp_all
  with r have "map_of rs ''ddfsnow'' = Some (Fin 1000, Fin 3000)"
    unfolding x' by simp
  with gs rs show ?thesis by (intro exI conjI)
qed

end
